theory Spec2Isabelle
  imports Main
begin

section \<open>Exceptions\<close>

text \<open>
  Every exception class of the pipeline is a constructor of \<open>error\<close>; its argument
  names the message the source raises it with (the format arguments left out).
  A raise is the value \<open>Inl e\<close>, a normal return \<open>Inr v\<close>.
\<close>

datatype dataset_msg =
    MoreThanOneDatasetName
  | NoRowsMatchingName
  | TooManyRowsMatchingName
  | NoRowsMatchingID
  | TooManyRowsMatchingID
  | DatasetNameAlreadyExists

datatype subject_msg =
    DatasetNameDoesNotExist
  | MoreThanOneSubjectIdentifier
  | MoreThanOneSubjectIdentifierDeid
  | NoRowsMatchingSubjectIdentifier
  | TooManyRowsMatchingSubjectIdentifier
  | SubjectColumnsDoNotMatchTemplate
  | DuplicatedRowsInSubjectDf
  | BlankStringsInDataframe
  | NotOneDatasetNameInSubjectDf
  | DatasetNameNotInDatasetsTable
  | SubjectAlreadyExists
  | SubjectGenderNotForM
  | DOBLaterThanDOD

datatype variable_msg =
    MoreThanOneVariableName
  | NoRowsMatchingVariableName
  | TooManyRowsMatchingVariableName

datatype measurement_msg =
    ColumnsDoNotMatchTemplate
  | DuplicatedRows
  | BlankStringsFound
  | ContainsNAs
  | NotOneDatasetName
  | DatasetNameContainsWhitespace
  | GenderNotForM
  | DateFieldNotFormatted
  | TimeFieldNotFormatted
  | MoreThanOneMeasurement
  | NotSetAsFormatted
  | SubjectDoesNotExist
  | VariableNameDoesNotExist
  | CannotConvertToFloat
  | CannotConvertToInt
  | CannotConvertToDate
  | CannotConvertToTime
  | NotValidOption
  | MeasurementDateNotFormatted
  | MeasurementDateEarlierThanDOB
  | MeasurementDateLaterThanDOD
  | MeasurementTimeNotFormatted

datatype error =
    DatasetDatabaseException dataset_msg
  | SubjectDatabaseException subject_msg
  | VariablesDatabaseException variable_msg
  | MeasurementFileException measurement_msg
  | IndexError
  | ValueError
  | LibraryError
  | ProgrammingError

section \<open>The database\<close>

text \<open>
  The tables of schema \<open>cvdnet_consolidated\<close> that the queries of the pipeline read and
  write, one record per row, with the columns those queries name. A table is the list
  of its rows. The schema itself is an external contract: the column types follow the
  data model of the specification, a nullable column is an \<open>option\<close>.
  Dates and times of measurements are kept as the text the pipeline writes.
\<close>

record dataset_row =
  d_id :: int
  d_dataset_name :: string

record subject_row =
  s_id :: int
  s_dataset_id :: int
  s_subject_identifier :: string
  s_subject_identifier_deid :: string
  s_gender :: "string option"
  s_date_of_birth :: "int option"
  s_date_of_death :: "int option"
  s_ethnicity :: "string option"

record variable_row =
  v_id :: int
  v_variable_name :: string
  v_data_type :: string
  v_associated_visit :: "string option"
  v_has_options :: bool
  v_deidentification_required :: bool

record option_row =
  o_variable_id :: int
  o_option_name :: string

record measurement_row =
  m_id :: int
  m_subject_id :: int
  m_variable_id :: int
  m_measurement_date :: "string option"
  m_measurement_time :: "string option"
  m_visit_grouping :: "string option"
  m_value :: "string option"
  m_value_deid :: "string option"

text \<open>
  A row as a query sees it: its columns by name, each with an SQL value.
\<close>

datatype sql_value = SqlNull | SqlInt int | SqlText string | SqlBool bool

type_synonym sql_row = "(string \<times> sql_value) list"

text \<open>
  The engine is the connection to the store: its tables, and how it reads the text
  of a query. Every lookup of the pipeline pastes its arguments between
  apostrophes into the \<open>WHERE\<close> condition of a query (an f-string) and sends the text.
  When every pasted text is plain, the store compares the column with that text
  (\<open>sql_where\<close> below). A pasted text with any other character need not arrive as one
  SQL literal: an apostrophe ends the literal, and the rest of the text is read as
  SQL; a percent sign or a backslash may be rewritten on the way. What the store
  selects for such a condition, or the error it raises, is its own reading of the
  text: the field \<open>reads\<close>, which gives for the text of a condition either an error or
  the test it applies to a row. (The queries of the lookups are selections: the model
  does not follow a pasted text that carries a further statement of its own.)
\<close>

record database =
  datasets :: "dataset_row list"
  subjects :: "subject_row list"
  metadata_variables :: "variable_row list"
  metadata_variable_options :: "option_row list"
  measurements :: "measurement_row list"
  reads :: "string \<Rightarrow> error + (sql_row \<Rightarrow> bool)"

definition plain_characters :: string where
  "plain_characters =
     ''abcdefghijklmnopqrstuvwxyzABCDEFGHIJKLMNOPQRSTUVWXYZ0123456789_-.: ''"

definition plain_text :: "string \<Rightarrow> bool" where
  "plain_text x = list_all (\<lambda>c. c \<in> set plain_characters) x"

definition plain_option :: "string option \<Rightarrow> bool" where
  "plain_option x = (case x of None \<Rightarrow> True | Some t \<Rightarrow> plain_text t)"

text \<open>
  The text of a condition: \<^verbatim>\<open>column = '...' AND column = '...'\<close>, each argument
  pasted as it is between two apostrophes.
\<close>

definition quoted :: "string \<Rightarrow> string" where
  "quoted x = CHR 0x27 # x @ [CHR 0x27]"

fun where_text :: "(string \<times> string) list \<Rightarrow> string" where
  "where_text [] = []"
| "where_text [(column, x)] = column @ '' = '' @ quoted x"
| "where_text ((column, x) # comparison # comparisons) =
     column @ '' = '' @ quoted x @ '' AND '' @ where_text (comparison # comparisons)"

text \<open>
  The rows a query selects with such a condition, out of the rows it ranges over;
  \<open>cells\<close> gives the columns of a row. The columns of a table that a \<open>LEFT JOIN\<close>
  found no row of are NULL (\<open>None\<close> for the row).
\<close>

definition sql_where ::
  "database \<Rightarrow> (string \<times> string) list \<Rightarrow> ('r \<Rightarrow> sql_row) \<Rightarrow> 'r list \<Rightarrow> error + 'r list" where
  "sql_where engine comparisons cells rows =
     (if list_all (\<lambda>(column, x). plain_text x) comparisons
      then Inr (filter (\<lambda>r. list_all (\<lambda>(column, x). map_of (cells r) column = Some (SqlText x))
                                comparisons) rows)
      else (case reads engine (where_text comparisons) of
              Inl e \<Rightarrow> Inl e
            | Inr holds \<Rightarrow> Inr (filter (\<lambda>r. holds (cells r)) rows)))"

definition text_or_null :: "string option \<Rightarrow> sql_value" where
  "text_or_null x = (case x of None \<Rightarrow> SqlNull | Some t \<Rightarrow> SqlText t)"

definition int_or_null :: "int option \<Rightarrow> sql_value" where
  "int_or_null x = (case x of None \<Rightarrow> SqlNull | Some i \<Rightarrow> SqlInt i)"

text \<open>
  The store assigns the surrogate \<open>id\<close> of an appended row (the pipeline drops the
  \<open>id\<close> column from every frame it appends): the next identifier is one above the
  largest in the table.
\<close>

definition next_id :: "int list \<Rightarrow> int" where
  "next_id ids = fold max ids 0 + 1"

text \<open>
  \<open>LEFT JOIN\<close>: every left row is kept, paired with each right row the condition
  accepts, or with \<open>None\<close> (SQL NULL) when there is none.
\<close>

definition left_join :: "'a list \<Rightarrow> 'b list \<Rightarrow> ('a \<Rightarrow> 'b \<Rightarrow> bool) \<Rightarrow> ('a \<times> 'b option) list" where
  "left_join xs ys cond =
     concat (map (\<lambda>x. let matches = filter (cond x) ys in
                        if matches = [] then [(x, None)]
                        else map (\<lambda>y. (x, Some y)) matches) xs)"

section \<open>datasets.py\<close>

text \<open>
  \<^verbatim>\<open>WHERE dataset_name = '{dataset_name}'\<close> on the datasets table.
\<close>

definition dataset_cells :: "string \<Rightarrow> dataset_row option \<Rightarrow> sql_row" where
  "dataset_cells id_column d =
     [(id_column, int_or_null (map_option d_id d)),
      (''dataset_name'', text_or_null (map_option d_dataset_name d))]"

definition select_datasets_by_name :: "string \<Rightarrow> database \<Rightarrow> error + dataset_row list" where
  "select_datasets_by_name dataset_name engine =
     sql_where engine [(''dataset_name'', dataset_name)]
       (\<lambda>d. dataset_cells ''id'' (Some d)) (datasets engine)"

text \<open>The rows of the datasets table that carry a name: what the query selects for a plain name.\<close>

definition datasets_named :: "string \<Rightarrow> database \<Rightarrow> dataset_row list" where
  "datasets_named dataset_name engine =
     filter (\<lambda>d. d_dataset_name d = dataset_name) (datasets engine)"

definition check_dataset_name_exists :: "string \<Rightarrow> database \<Rightarrow> error + bool" where
  "check_dataset_name_exists dataset_name engine =
     (case select_datasets_by_name dataset_name engine of
        Inl e \<Rightarrow> Inl e
      | Inr rows \<Rightarrow>
         (let result = length rows in
          if result = 0 then Inr False
          else if result = 1 then Inr True
          else Inl (DatasetDatabaseException MoreThanOneDatasetName)))"

definition get_dataset_id :: "string \<Rightarrow> database \<Rightarrow> error + int" where
  "get_dataset_id dataset_name engine =
     (case select_datasets_by_name dataset_name engine of
        Inl e \<Rightarrow> Inl e
      | Inr rows \<Rightarrow>
         (let result = map d_id rows in
          if length result = 0 then Inl (DatasetDatabaseException NoRowsMatchingName)
          else if length result > 1 then Inl (DatasetDatabaseException TooManyRowsMatchingName)
          else Inr (hd result)))"

text \<open>\<^verbatim>\<open>WHERE id = {dataset_id}\<close>: the argument is a number.\<close>

definition get_dataset_name :: "int \<Rightarrow> database \<Rightarrow> error + string" where
  "get_dataset_name dataset_id engine =
     (let result = map d_dataset_name (filter (\<lambda>d. d_id d = dataset_id) (datasets engine)) in
      if length result = 0 then Inl (DatasetDatabaseException NoRowsMatchingID)
      else if length result > 1 then Inl (DatasetDatabaseException TooManyRowsMatchingID)
      else Inr (hd result))"

text \<open>
  \<open>insert_dataset\<close> returns nothing; the model returns the outcome together with the
  database it leaves. The name is appended as it was given (\<open>to_sql\<close> sends it as a
  value, not as query text).
\<close>

definition insert_dataset :: "string \<Rightarrow> database \<Rightarrow> (error + unit) \<times> database" where
  "insert_dataset dataset_name engine =
     (case check_dataset_name_exists dataset_name engine of
        Inl e \<Rightarrow> (Inl e, engine)
      | Inr found \<Rightarrow>
          if found then (Inl (DatasetDatabaseException DatasetNameAlreadyExists), engine)
          else (Inr (),
                engine\<lparr>datasets := datasets engine @
                  [\<lparr>d_id = next_id (map d_id (datasets engine)),
                    d_dataset_name = dataset_name\<rparr>]\<rparr>))"

section \<open>Library functions\<close>

text \<open>
  The pipeline calls four functions of Python and pandas on run-time text:
  \<open>pd.to_datetime\<close>, \<open>re.match\<close> with a pattern built from the dataset name,
  \<open>float\<close> and \<open>int\<close>. What they compute is a parameter of the model: a date
  parser that returns a point on a time line or raises, a matcher that returns
  whether the pattern matches at the start of the text or raises, and whether the two
  conversions succeed. The two fixed patterns of the source (dates and times) are
  modelled in full further down.
\<close>

record pylib =
  to_datetime :: "string \<Rightarrow> error + int"
  re_match :: "string \<Rightarrow> string \<Rightarrow> error + bool"
  float_converts :: "string \<Rightarrow> bool"
  int_converts :: "string \<Rightarrow> bool"

text \<open>
  \<open>pd.to_datetime\<close> of a missing value is \<open>NaT\<close>, and every comparison with \<open>NaT\<close> is
  False.
\<close>

definition to_datetime_na :: "pylib \<Rightarrow> string option \<Rightarrow> error + int option" where
  "to_datetime_na lib x =
     (case x of
        None \<Rightarrow> Inr None
      | Some s \<Rightarrow> (case to_datetime lib s of Inl e \<Rightarrow> Inl e | Inr t \<Rightarrow> Inr (Some t)))"

definition timestamp_less :: "int option \<Rightarrow> int option \<Rightarrow> bool" where
  "timestamp_less a b = (case (a, b) of (Some x, Some y) \<Rightarrow> x < y | _ \<Rightarrow> False)"

text \<open>
  A loop over the rows of a frame that stops at the first exception: the results of
  the rows in order, or the first error.
\<close>

fun for_each :: "('a \<Rightarrow> error + 'b) \<Rightarrow> 'a list \<Rightarrow> error + 'b list" where
  "for_each f [] = Inr []"
| "for_each f (x # xs) =
     (case f x of
        Inl e \<Rightarrow> Inl e
      | Inr y \<Rightarrow> (case for_each f xs of Inl e \<Rightarrow> Inl e | Inr ys \<Rightarrow> Inr (y # ys)))"

text \<open>\<open>drop_duplicates\<close> keeps the first of equal rows, in the order of the frame.\<close>

definition drop_duplicates :: "'a list \<Rightarrow> 'a list" where
  "drop_duplicates xs = rev (remdups (rev xs))"

text \<open>
  Comparing the columns of a frame with those of a template: pandas raises
  \<open>ValueError\<close> when the two have different lengths, and otherwise the frame is refused
  when any name differs.
\<close>

definition columns_differ :: "string list \<Rightarrow> string list \<Rightarrow> error + bool" where
  "columns_differ cols template =
     (if length cols \<noteq> length template then Inl ValueError
      else Inr (\<exists>(a, b) \<in> set (zip cols template). a \<noteq> b))"

section \<open>subjects.py\<close>

text \<open>
  The queries on subjects range over subjects left-joined to datasets on the dataset
  id; a subject without a dataset has NULL in the columns of the dataset.
\<close>

definition subjects_joined :: "database \<Rightarrow> (subject_row \<times> dataset_row option) list" where
  "subjects_joined engine =
     left_join (subjects engine) (datasets engine) (\<lambda>s d. d_id d = s_dataset_id s)"

definition subject_cells :: "subject_row option \<Rightarrow> sql_row" where
  "subject_cells s =
     [(''s.id'', int_or_null (map_option s_id s)),
      (''dataset_id'', int_or_null (map_option s_dataset_id s)),
      (''subject_identifier'', text_or_null (map_option s_subject_identifier s)),
      (''subject_identifier_deid'', text_or_null (map_option s_subject_identifier_deid s)),
      (''gender'', text_or_null (Option.bind s s_gender)),
      (''date_of_birth'', int_or_null (Option.bind s s_date_of_birth)),
      (''date_of_death'', int_or_null (Option.bind s s_date_of_death)),
      (''ethnicity'', text_or_null (Option.bind s s_ethnicity))]"

definition joined_subject_cells :: "subject_row \<times> dataset_row option \<Rightarrow> sql_row" where
  "joined_subject_cells = (\<lambda>(s, d). subject_cells (Some s) @ dataset_cells ''d.id'' d)"

text \<open>
  \<^verbatim>\<open>WHERE subject_identifier = '{subject_identifier}' AND dataset_name = '{dataset_name}'\<close>
\<close>

definition select_subjects ::
  "string \<Rightarrow> string \<Rightarrow> database \<Rightarrow> error + (subject_row \<times> dataset_row option) list" where
  "select_subjects subject_identifier dataset_name engine =
     sql_where engine
       [(''subject_identifier'', subject_identifier), (''dataset_name'', dataset_name)]
       joined_subject_cells (subjects_joined engine)"

text \<open>
  The subjects with a given identifier in a dataset of a given name: what the query
  selects for plain arguments.
\<close>

definition subjects_named ::
  "string \<Rightarrow> string \<Rightarrow> database \<Rightarrow> (subject_row \<times> dataset_row option) list" where
  "subjects_named subject_identifier dataset_name engine =
     filter (\<lambda>(s, d). s_subject_identifier s = subject_identifier \<and>
                       (case d of None \<Rightarrow> False | Some d' \<Rightarrow> d_dataset_name d' = dataset_name))
       (subjects_joined engine)"

definition check_subject_exists :: "string \<Rightarrow> string \<Rightarrow> database \<Rightarrow> error + bool" where
  "check_subject_exists subject_identifier dataset_name engine =
     (case check_dataset_name_exists dataset_name engine of
        Inl e \<Rightarrow> Inl e
      | Inr found \<Rightarrow>
          if found \<noteq> True then Inl (SubjectDatabaseException DatasetNameDoesNotExist)
          else
            (case select_subjects subject_identifier dataset_name engine of
               Inl e \<Rightarrow> Inl e
             | Inr rows \<Rightarrow>
                (let result = length rows in
                 if result = 0 then Inr False
                 else if result = 1 then Inr True
                 else Inl (SubjectDatabaseException MoreThanOneSubjectIdentifier))))"

text \<open>
  \<^verbatim>\<open>WHERE subject_identifier_deid = '{subject_identifier_deid}'\<close> on the subjects table.
\<close>

definition select_subjects_by_deid :: "string \<Rightarrow> database \<Rightarrow> error + subject_row list" where
  "select_subjects_by_deid subject_identifier_deid engine =
     sql_where engine [(''subject_identifier_deid'', subject_identifier_deid)]
       (\<lambda>s. subject_cells (Some s)) (subjects engine)"

definition check_subject_deid_exists :: "string \<Rightarrow> database \<Rightarrow> error + bool" where
  "check_subject_deid_exists subject_identifier_deid engine =
     (case select_subjects_by_deid subject_identifier_deid engine of
        Inl e \<Rightarrow> Inl e
      | Inr rows \<Rightarrow>
         (let result = length rows in
          if result = 0 then Inr False
          else if result = 1 then Inr True
          else Inl (SubjectDatabaseException MoreThanOneSubjectIdentifierDeid)))"

definition get_subject_id :: "string \<Rightarrow> string \<Rightarrow> database \<Rightarrow> error + int" where
  "get_subject_id subject_identifier dataset_name engine =
     (case check_dataset_name_exists dataset_name engine of
        Inl e \<Rightarrow> Inl e
      | Inr found \<Rightarrow>
          if found \<noteq> True then Inl (SubjectDatabaseException DatasetNameDoesNotExist)
          else
            (case select_subjects subject_identifier dataset_name engine of
               Inl e \<Rightarrow> Inl e
             | Inr rows \<Rightarrow>
                (let result = map (\<lambda>(s, d). s_id s) rows in
                 if length result = 0
                 then Inl (SubjectDatabaseException NoRowsMatchingSubjectIdentifier)
                 else if length result > 1
                 then Inl (SubjectDatabaseException TooManyRowsMatchingSubjectIdentifier)
                 else Inr (hd result))))"

subsection \<open>Pseudonyms\<close>

text \<open>
  The random source is the list of the numbers \<open>random.choices\<close> draws, one for each
  character; a draw of \<open>k\<close> characters uses up \<open>k\<close> of them. The retry loops of the
  source need not end; in the model a loop that runs the source dry does not return
  (\<open>None\<close>).
\<close>

definition ascii_letters :: string where
  "ascii_letters = ''abcdefghijklmnopqrstuvwxyzABCDEFGHIJKLMNOPQRSTUVWXYZ''"

definition random_choices :: "string \<Rightarrow> nat \<Rightarrow> nat list \<Rightarrow> (string \<times> nat list) option" where
  "random_choices population k rng =
     (if length rng < k then None
      else Some (map (\<lambda>r. population ! (r mod length population)) (take k rng), drop k rng))"

function generate_subject_identifier_deid ::
  "database \<Rightarrow> nat list \<Rightarrow> ((error + string) \<times> nat list) option" where
  "generate_subject_identifier_deid engine rng =
     (case random_choices ascii_letters 10 rng of
        None \<Rightarrow> None
      | Some (new_sub_deid, rng') \<Rightarrow>
          (case check_subject_deid_exists new_sub_deid engine of
             Inl e \<Rightarrow> Some (Inl e, rng')
           | Inr found \<Rightarrow>
               if found = True then generate_subject_identifier_deid engine rng'
               else Some (Inr new_sub_deid, rng')))"
  by pat_completeness auto
termination
  by (relation "measure (\<lambda>(engine, rng). length rng)")
     (auto simp: random_choices_def split: if_splits)

declare generate_subject_identifier_deid.simps [simp del]

subsection \<open>insert_subjects\<close>

text \<open>
  A row of the frame \<open>insert_subjects\<close> takes. Its \<open>dataset_name\<close> and
  \<open>subject_identifier\<close> are never missing (the type has no missing value for them, so the
  check of the source for NAs in the two columns has no counterpart below).
\<close>

record subject_input =
  si_dataset_name :: string
  si_subject_identifier :: string
  si_gender :: "string option"
  si_date_of_birth :: "string option"
  si_date_of_death :: "string option"
  si_ethnicity :: "string option"

record subjects_frame =
  sf_columns :: "string list"
  sf_rows :: "subject_input list"

definition subject_has_blank :: "subject_input \<Rightarrow> bool" where
  "subject_has_blank r =
     (si_dataset_name r = '''' \<or> si_subject_identifier r = '''' \<or>
      Some '''' \<in> set [si_gender r, si_date_of_birth r, si_date_of_death r, si_ethnicity r])"

text \<open>
  The pseudonym of one row: generate, and generate again while the candidate is
  among the pseudonyms given to the earlier rows of the frame.
\<close>

lemma generate_subject_identifier_deid_consumes:
  "generate_subject_identifier_deid engine rng = Some (res, rng') \<Longrightarrow> length rng' < length rng"
proof (induction engine rng rule: generate_subject_identifier_deid.induct)
  case (1 engine rng)
  from "1.prems" obtain cand rest where
    draw: "random_choices ascii_letters 10 rng = Some (cand, rest)"
    by (subst (asm) generate_subject_identifier_deid.simps) (auto split: option.splits)
  then have shorter: "length rest < length rng"
    by (auto simp: random_choices_def split: if_splits)
  show ?case
  proof (cases "check_subject_deid_exists cand engine")
    case (Inl e)
    with "1.prems" draw have "rng' = rest"
      by (subst (asm) generate_subject_identifier_deid.simps) simp
    with shorter show ?thesis by simp
  next
    case (Inr found)
    show ?thesis
    proof (cases found)
      case True
      with "1.prems" draw Inr
      have "generate_subject_identifier_deid engine rest = Some (res, rng')"
        by (subst (asm) generate_subject_identifier_deid.simps) simp
      with "1.IH" [OF draw refl Inr] True have "length rng' < length rest" by simp
      with shorter show ?thesis by simp
    next
      case False
      with "1.prems" draw Inr have "rng' = rest"
        by (subst (asm) generate_subject_identifier_deid.simps) simp
      with shorter show ?thesis by simp
    qed
  qed
qed

function generate_unused_deid ::
  "database \<Rightarrow> string list \<Rightarrow> nat list \<Rightarrow> ((error + string) \<times> nat list) option" where
  "generate_unused_deid engine assigned rng =
     (case generate_subject_identifier_deid engine rng of
        None \<Rightarrow> None
      | Some (Inl e, rng') \<Rightarrow> Some (Inl e, rng')
      | Some (Inr de_id, rng') \<Rightarrow>
          if de_id \<in> set assigned then generate_unused_deid engine assigned rng'
          else Some (Inr de_id, rng'))"
  by pat_completeness auto
termination
  by (relation "measure (\<lambda>(engine, assigned, rng). length rng)")
     (auto dest: generate_subject_identifier_deid_consumes)

declare generate_unused_deid.simps [simp del]

fun assign_deids ::
  "database \<Rightarrow> 'a list \<Rightarrow> string list \<Rightarrow> nat list \<Rightarrow> (error + string list) option" where
  "assign_deids engine [] assigned rng = Some (Inr assigned)"
| "assign_deids engine (row # rows) assigned rng =
     (case generate_unused_deid engine assigned rng of
        None \<Rightarrow> None
      | Some (Inl e, rng') \<Rightarrow> Some (Inl e)
      | Some (Inr de_id, rng') \<Rightarrow> assign_deids engine rows (assigned @ [de_id]) rng')"

text \<open>The rows appended to the subjects table, with the ids the store gives them.\<close>

definition new_subject_rows ::
  "int \<Rightarrow> int \<Rightarrow> (subject_input \<times> string \<times> int option \<times> int option) list \<Rightarrow>
     subject_row list" where
  "new_subject_rows first_id dataset_id rows =
     map (\<lambda>(k, (r, de_id, dob, dod)).
            \<lparr>s_id = first_id + int k,
              s_dataset_id = dataset_id,
              s_subject_identifier = si_subject_identifier r,
              s_subject_identifier_deid = de_id,
              s_gender = si_gender r,
              s_date_of_birth = dob,
              s_date_of_death = dod,
              s_ethnicity = si_ethnicity r\<rparr>)
         (enumerate 0 rows)"

text \<open>The checks of \<open>insert_subjects\<close> on the frame, up to the parsing of the dates.\<close>

definition check_subjects_frame ::
  "string list \<Rightarrow> subjects_frame \<Rightarrow> database \<Rightarrow> error + string" where
  "check_subjects_frame subject_template subjects_df engine =
     (let rows = sf_rows subjects_df in
      case columns_differ (sf_columns subjects_df) subject_template of
        Inl e \<Rightarrow> Inl e
      | Inr differ \<Rightarrow>
         (if differ then Inl (SubjectDatabaseException SubjectColumnsDoNotMatchTemplate)
          else if \<not> distinct rows
          then Inl (SubjectDatabaseException DuplicatedRowsInSubjectDf)
          else if \<exists>r \<in> set rows. subject_has_blank r
          then Inl (SubjectDatabaseException BlankStringsInDataframe)
          else if length (remdups (map si_dataset_name rows)) \<noteq> 1
          then Inl (SubjectDatabaseException NotOneDatasetNameInSubjectDf)
          else
            (let dataset_name = si_dataset_name (hd rows) in
             case check_dataset_name_exists dataset_name engine of
               Inl e \<Rightarrow> Inl e
             | Inr found \<Rightarrow>
                (if found = False
                 then Inl (SubjectDatabaseException DatasetNameNotInDatasetsTable)
                 else
                   (case for_each
                           (\<lambda>sub. case check_subject_exists sub dataset_name engine of
                                    Inl e \<Rightarrow> Inl e
                                  | Inr known \<Rightarrow>
                                      if known = True
                                      then Inl (SubjectDatabaseException SubjectAlreadyExists)
                                      else Inr ())
                           (map si_subject_identifier rows) of
                      Inl e \<Rightarrow> Inl e
                    | Inr _ \<Rightarrow>
                       (if \<exists>r \<in> set rows. case si_gender r of
                                              None \<Rightarrow> False
                                            | Some gen \<Rightarrow> gen \<notin> set [''F'', ''M'']
                        then Inl (SubjectDatabaseException SubjectGenderNotForM)
                        else Inr dataset_name))))))"

definition parse_subject_dates ::
  "pylib \<Rightarrow> subject_input list \<Rightarrow> error + (int option \<times> int option) list" where
  "parse_subject_dates lib rows =
     (case for_each (\<lambda>r. to_datetime_na lib (si_date_of_birth r)) rows of
        Inl e \<Rightarrow> Inl e
      | Inr births \<Rightarrow>
         (case for_each (\<lambda>r. to_datetime_na lib (si_date_of_death r)) rows of
            Inl e \<Rightarrow> Inl e
          | Inr deaths \<Rightarrow>
             (if \<exists>(dob, dod) \<in> set (zip births deaths). timestamp_less dod dob
              then Inl (SubjectDatabaseException DOBLaterThanDOD)
              else Inr (zip births deaths))))"

definition insert_subjects ::
  "pylib \<Rightarrow> string list \<Rightarrow> subjects_frame \<Rightarrow> database \<Rightarrow> nat list \<Rightarrow>
     ((error + unit) \<times> database) option" where
  "insert_subjects lib subject_template subjects_df engine rng =
     (let rows = sf_rows subjects_df in
      case check_subjects_frame subject_template subjects_df engine of
        Inl e \<Rightarrow> Some (Inl e, engine)
      | Inr dataset_name \<Rightarrow>
         (case parse_subject_dates lib rows of
            Inl e \<Rightarrow> Some (Inl e, engine)
          | Inr dates \<Rightarrow>
             (case assign_deids engine rows [] rng of
                None \<Rightarrow> None
              | Some (Inl e) \<Rightarrow> Some (Inl e, engine)
              | Some (Inr de_ids) \<Rightarrow>
                 (case get_dataset_id dataset_name engine of
                    Inl e \<Rightarrow> Some (Inl e, engine)
                  | Inr dataset_id \<Rightarrow>
                      Some (Inr (),
                            engine\<lparr>subjects := subjects engine @
                              new_subject_rows (next_id (map s_id (subjects engine))) dataset_id
                                (zip rows (zip de_ids dates))\<rparr>)))))"

section \<open>metadata.py: variable lookups\<close>

text \<open>\<^verbatim>\<open>WHERE variable_name = '{name}'\<close> on the metadata_variables table.\<close>

definition variable_cells :: "string \<Rightarrow> variable_row option \<Rightarrow> sql_row" where
  "variable_cells id_column v =
     [(id_column, int_or_null (map_option v_id v)),
      (''variable_name'', text_or_null (map_option v_variable_name v)),
      (''data_type'', text_or_null (map_option v_data_type v)),
      (''associated_visit'', text_or_null (Option.bind v v_associated_visit)),
      (''has_options'', case v of None \<Rightarrow> SqlNull | Some v' \<Rightarrow> SqlBool (v_has_options v')),
      (''deidentification_required'',
         case v of None \<Rightarrow> SqlNull | Some v' \<Rightarrow> SqlBool (v_deidentification_required v'))]"

definition select_variables_by_name :: "string \<Rightarrow> database \<Rightarrow> error + variable_row list" where
  "select_variables_by_name name engine =
     sql_where engine [(''variable_name'', name)]
       (\<lambda>v. variable_cells ''id'' (Some v)) (metadata_variables engine)"

text \<open>The variables that carry a name: what the query selects for a plain name.\<close>

definition variables_named :: "string \<Rightarrow> database \<Rightarrow> variable_row list" where
  "variables_named name engine =
     filter (\<lambda>v. v_variable_name v = name) (metadata_variables engine)"

definition check_variable_name_exists :: "string \<Rightarrow> database \<Rightarrow> error + bool" where
  "check_variable_name_exists name engine =
     (case select_variables_by_name name engine of
        Inl e \<Rightarrow> Inl e
      | Inr rows \<Rightarrow>
         (let result = length rows in
          if result = 0 then Inr False
          else if result = 1 then Inr True
          else Inl (VariablesDatabaseException MoreThanOneVariableName)))"

definition get_variable_id :: "string \<Rightarrow> database \<Rightarrow> error + int" where
  "get_variable_id variable_name engine =
     (case select_variables_by_name variable_name engine of
        Inl e \<Rightarrow> Inl e
      | Inr rows \<Rightarrow>
         (let result = map v_id rows in
          if length result = 0 then Inl (VariablesDatabaseException NoRowsMatchingVariableName)
          else if length result > 1
          then Inl (VariablesDatabaseException TooManyRowsMatchingVariableName)
          else Inr (hd result)))"

section \<open>measurements.py\<close>

subsection \<open>The two fixed patterns\<close>

text \<open>
  Both patterns are sequences of character classes matched from the start of the
  text (\<open>re.match\<close>, and \<open>^\<close>). \<open>match_classes\<close> consumes one character for each class
  and returns the rest of the text. The final \<open>$\<close> of Python matches at the end of
  the text and also just before a newline that ends it.
\<close>

fun match_classes :: "string list \<Rightarrow> string \<Rightarrow> string option" where
  "match_classes [] s = Some s"
| "match_classes (cls # classes) [] = None"
| "match_classes (cls # classes) (c # s) =
     (if c \<in> set cls then match_classes classes s else None)"

definition at_dollar :: "string \<Rightarrow> bool" where
  "at_dollar rest = (rest = [] \<or> rest = [CHR 0x0A])"

definition digits :: string where
  "digits = ''0123456789''"

text \<open>\<^verbatim>\<open>^[12][890][0-9]{2}-[0-1][0-9]-[0-3][0-9]$\<close>\<close>

definition date_pattern :: "string list" where
  "date_pattern =
     [''12'', ''890'', digits, digits, ''-'', ''01'', digits, ''-'', ''0123'', digits]"

definition match_date :: "string \<Rightarrow> bool" where
  "match_date s =
     (case match_classes date_pattern s of None \<Rightarrow> False | Some rest \<Rightarrow> at_dollar rest)"

text \<open>
  \<^verbatim>\<open>^([0-1][0-9]|2[0-4]):[0-5][0-9]:[0-5][0-9][.]{0,1}[0-9]{0,}$\<close>:
  the hour by the first alternative that matches (the two start with different
  characters), then minutes and seconds, at most one dot, and all the digits that
  follow (giving digits back never helps \<open>$\<close>).
\<close>

definition match_time :: "string \<Rightarrow> bool" where
  "match_time s =
     (case (case match_classes [''01'', digits] s of
              Some rest \<Rightarrow> Some rest
            | None \<Rightarrow> match_classes [''2'', ''01234''] s) of
        None \<Rightarrow> False
      | Some after_hour \<Rightarrow>
         (case match_classes ['':'', ''012345'', digits, '':'', ''012345'', digits] after_hour of
            None \<Rightarrow> False
          | Some after_seconds \<Rightarrow>
              (let after_dot = (case after_seconds of
                                  [] \<Rightarrow> []
                                | c # rest \<Rightarrow> if c = CHR ''.'' then rest else c # rest)
               in at_dollar (dropWhile (\<lambda>c. c \<in> set digits) after_dot))))"

subsection \<open>load_measurement_file\<close>

text \<open>
  The frame \<open>read_csv\<close> returns: every cell is text or missing (\<open>dtype=str\<close>). A row
  has the eleven columns the pipeline names and the cells of any further column of
  the template; the template file is not part of the sources, its column names are a
  parameter.
\<close>

record raw_row =
  r_dataset_name :: "string option"
  r_subject_identifier :: "string option"
  r_variable_name :: "string option"
  r_gender :: "string option"
  r_date_of_birth :: "string option"
  r_date_of_death :: "string option"
  r_measurement_date :: "string option"
  r_measurement_time :: "string option"
  r_visit_grouping :: "string option"
  r_value :: "string option"
  r_ethnicity :: "string option"
  r_other :: "string option list"

record raw_file =
  f_columns :: "string list"
  f_rows :: "raw_row list"

definition raw_cells :: "raw_row \<Rightarrow> string option list" where
  "raw_cells r =
     [r_dataset_name r, r_subject_identifier r, r_variable_name r, r_gender r,
      r_date_of_birth r, r_date_of_death r, r_measurement_date r, r_measurement_time r,
      r_visit_grouping r, r_value r, r_ethnicity r] @ r_other r"

text \<open>
  A row of a validated frame: the three columns the validator requires in every row
  are text.
\<close>

record meas_row =
  b_dataset_name :: string
  b_subject_identifier :: string
  b_variable_name :: string
  b_gender :: "string option"
  b_date_of_birth :: "string option"
  b_date_of_death :: "string option"
  b_measurement_date :: "string option"
  b_measurement_time :: "string option"
  b_visit_grouping :: "string option"
  b_value :: "string option"
  b_ethnicity :: "string option"

text \<open>
  The four columns \<open>insert_measurements\<close> adds to the frame, for one row:
  \<open>subject_id\<close>, \<open>variable_id\<close>, \<open>value_deid\<close> and \<open>meas_exists\<close>.
\<close>

record added_cells =
  a_subject_id :: "int option"
  a_variable_id :: "int option"
  a_value_deid :: "string option"
  a_meas_exists :: bool

text \<open>
  A \<open>FormattedMeasurements\<close> object: the frame \<open>df\<close> of the eleven columns and the flag;
  \<open>added_columns\<close> holds the four further columns of the frame, row by row, once a
  call of \<open>insert_measurements\<close> has added them.
\<close>

record formatted_measurements =
  df :: "meas_row list"
  formatted :: bool
  added_columns :: "added_cells list option"

definition validated_row :: "raw_row \<Rightarrow> meas_row" where
  "validated_row r =
     \<lparr>b_dataset_name = the (r_dataset_name r),
       b_subject_identifier = the (r_subject_identifier r),
       b_variable_name = the (r_variable_name r),
       b_gender = r_gender r,
       b_date_of_birth = r_date_of_birth r,
       b_date_of_death = r_date_of_death r,
       b_measurement_date = r_measurement_date r,
       b_measurement_time = r_measurement_time r,
       b_visit_grouping = r_visit_grouping r,
       b_value = r_value r,
       b_ethnicity = r_ethnicity r\<rparr>"

text \<open>
  \<open>x in series\<close> on a pandas Series asks whether \<open>x\<close> is one of the labels of its
  index, not one of its values. The frame read from the file has the index
  \<open>0, 1, ..., n - 1\<close>.
\<close>

datatype label = IntLabel nat | StrLabel string

definition series_index :: "'a list \<Rightarrow> label list" where
  "series_index rows = map IntLabel [0..<length rows]"

definition in_series :: "label \<Rightarrow> 'a list \<Rightarrow> bool" where
  "in_series x column = (x \<in> set (series_index column))"

definition date_fields :: "(raw_row \<Rightarrow> string option) list" where
  "date_fields = [r_date_of_birth, r_date_of_death, r_measurement_date]"

definition time_fields :: "(raw_row \<Rightarrow> string option) list" where
  "time_fields = [r_measurement_time]"

definition load_measurement_file :: "string list \<Rightarrow> raw_file \<Rightarrow> error + formatted_measurements" where
  "load_measurement_file template meas =
     (let rows = f_rows meas in
      case columns_differ (f_columns meas) template of
        Inl e \<Rightarrow> Inl e
      | Inr differ \<Rightarrow>
         (if differ then Inl (MeasurementFileException ColumnsDoNotMatchTemplate)
          else if \<not> distinct rows then Inl (MeasurementFileException DuplicatedRows)
          else if \<exists>r \<in> set rows. Some '''' \<in> set (raw_cells r)
          then Inl (MeasurementFileException BlankStringsFound)
          else if \<exists>var \<in> set [r_dataset_name, r_subject_identifier, r_variable_name].
                    \<exists>r \<in> set rows. var r = None
          then Inl (MeasurementFileException ContainsNAs)
          else if length (remdups (map r_dataset_name rows)) \<noteq> 1
          then Inl (MeasurementFileException NotOneDatasetName)
          else if in_series (StrLabel '' '') (map r_dataset_name rows)
          then Inl (MeasurementFileException DatasetNameContainsWhitespace)
          else if \<exists>r \<in> set rows. case r_gender r of
                                          None \<Rightarrow> False
                                        | Some gen \<Rightarrow> gen \<notin> set [''F'', ''M'']
          then Inl (MeasurementFileException GenderNotForM)
          else if \<exists>field \<in> set date_fields.
                    \<exists>r \<in> set rows. case field r of
                                          None \<Rightarrow> False
                                        | Some s \<Rightarrow> match_date s = False
          then Inl (MeasurementFileException DateFieldNotFormatted)
          else if \<exists>field \<in> set time_fields.
                    \<exists>r \<in> set rows. case field r of
                                          None \<Rightarrow> False
                                        | Some s \<Rightarrow> match_time s = False
          then Inl (MeasurementFileException TimeFieldNotFormatted)
          else Inr \<lparr>df = map validated_row rows, formatted = True, added_columns = None\<rparr>))"

subsection \<open>check_measurement_exists\<close>

text \<open>The name of a variable in the database: \<^verbatim>\<open>f'{dataset_name}_{variable_name}'\<close>.\<close>

definition formatted_name :: "string \<Rightarrow> string \<Rightarrow> string" where
  "formatted_name dataset_name variable_name = dataset_name @ ''_'' @ variable_name"

text \<open>
  The query ranges over measurements left-joined to subjects, to datasets and to
  metadata_variables.
\<close>

type_synonym joined_measurement =
  "((measurement_row \<times> subject_row option) \<times> dataset_row option) \<times> variable_row option"

definition measurements_joined :: "database \<Rightarrow> joined_measurement list" where
  "measurements_joined engine =
     left_join
       (left_join
          (left_join (measurements engine) (subjects engine) (\<lambda>m s. s_id s = m_subject_id m))
          (datasets engine)
          (\<lambda>(m, s) d. case s of None \<Rightarrow> False | Some s' \<Rightarrow> d_id d = s_dataset_id s'))
       (metadata_variables engine)
       (\<lambda>((m, s), d) v. v_id v = m_variable_id m)"

definition measurement_cells :: "measurement_row \<Rightarrow> sql_row" where
  "measurement_cells m =
     [(''m.id'', SqlInt (m_id m)),
      (''subject_id'', SqlInt (m_subject_id m)),
      (''variable_id'', SqlInt (m_variable_id m)),
      (''measurement_date'', text_or_null (m_measurement_date m)),
      (''measurement_time'', text_or_null (m_measurement_time m)),
      (''visit_grouping'', text_or_null (m_visit_grouping m)),
      (''value'', text_or_null (m_value m)),
      (''value_deid'', text_or_null (m_value_deid m))]"

definition joined_measurement_cells :: "joined_measurement \<Rightarrow> sql_row" where
  "joined_measurement_cells =
     (\<lambda>(((m, s), d), v).
        measurement_cells m @ subject_cells s @ dataset_cells ''d.id'' d @ variable_cells ''v.id'' v)"

text \<open>
  The condition names the subject identifier, the dataset name and the variable name,
  and the date, the time and the visit grouping when these are given
  (\<open>m_d_string\<close>, \<open>m_t_string\<close>, \<open>v_g_string\<close>).
\<close>

definition measurement_comparisons ::
  "string \<Rightarrow> string \<Rightarrow> string \<Rightarrow> string option \<Rightarrow> string option \<Rightarrow> string option \<Rightarrow>
     (string \<times> string) list" where
  "measurement_comparisons subject_identifier dataset_name variable_name
       measurement_date measurement_time visit_grouping =
     [(''subject_identifier'', subject_identifier), (''dataset_name'', dataset_name),
      (''variable_name'', variable_name)] @
     (case measurement_date of None \<Rightarrow> [] | Some x \<Rightarrow> [(''measurement_date'', x)]) @
     (case measurement_time of None \<Rightarrow> [] | Some x \<Rightarrow> [(''measurement_time'', x)]) @
     (case visit_grouping of None \<Rightarrow> [] | Some x \<Rightarrow> [(''visit_grouping'', x)])"

definition select_measurements ::
  "string \<Rightarrow> string \<Rightarrow> string \<Rightarrow> string option \<Rightarrow> string option \<Rightarrow> string option \<Rightarrow>
     database \<Rightarrow> error + joined_measurement list" where
  "select_measurements subject_identifier dataset_name variable_name
       measurement_date measurement_time visit_grouping engine =
     sql_where engine
       (measurement_comparisons subject_identifier dataset_name variable_name
          measurement_date measurement_time visit_grouping)
       joined_measurement_cells (measurements_joined engine)"

text \<open>
  What the condition tests on a joined row when its arguments are plain: the three
  names, and the date, time and visit grouping that are given. A NULL column equals
  nothing.
\<close>

definition measurement_where ::
  "string \<Rightarrow> string \<Rightarrow> string \<Rightarrow> string option \<Rightarrow> string option \<Rightarrow> string option \<Rightarrow>
     joined_measurement \<Rightarrow> bool" where
  "measurement_where subject_identifier dataset_name variable_name
       measurement_date measurement_time visit_grouping =
     (\<lambda>(((m, s), d), v).
        (case s of None \<Rightarrow> False | Some s' \<Rightarrow> s_subject_identifier s' = subject_identifier) \<and>
        (case d of None \<Rightarrow> False | Some d' \<Rightarrow> d_dataset_name d' = dataset_name) \<and>
        (case v of None \<Rightarrow> False | Some v' \<Rightarrow> v_variable_name v' = variable_name) \<and>
        (case measurement_date of None \<Rightarrow> True | Some x \<Rightarrow> m_measurement_date m = Some x) \<and>
        (case measurement_time of None \<Rightarrow> True | Some x \<Rightarrow> m_measurement_time m = Some x) \<and>
        (case visit_grouping of None \<Rightarrow> True | Some x \<Rightarrow> m_visit_grouping m = Some x))"

definition check_measurement_exists ::
  "pylib \<Rightarrow> string \<Rightarrow> string \<Rightarrow> string \<Rightarrow> database \<Rightarrow>
     string option \<Rightarrow> string option \<Rightarrow> string option \<Rightarrow> error + bool" where
  "check_measurement_exists lib dataset_name subject_identifier variable_name engine
       measurement_date measurement_time visit_grouping =
     (case re_match lib (''^'' @ dataset_name @ ''_'') variable_name of
        Inl e \<Rightarrow> Inl e
      | Inr matched \<Rightarrow>
         (let variable_name = (if matched = False then formatted_name dataset_name variable_name
                               else variable_name)
          in case select_measurements subject_identifier dataset_name variable_name
                    measurement_date measurement_time visit_grouping engine of
               Inl e \<Rightarrow> Inl e
             | Inr rows \<Rightarrow>
                (let result = length rows in
                 if result = 0 then Inr False
                 else if result = 1 then Inr True
                 else Inl (MeasurementFileException MoreThanOneMeasurement))))"

subsection \<open>insert_measurements\<close>

text \<open>The unique subjects of the frame, and whether each is in the subjects table.\<close>

definition subject_columns :: "string list" where
  "subject_columns =
     [''dataset_name'', ''subject_identifier'', ''gender'', ''date_of_birth'',
      ''date_of_death'', ''ethnicity'']"

definition subject_projection :: "meas_row \<Rightarrow> subject_input" where
  "subject_projection r =
     \<lparr>si_dataset_name = b_dataset_name r,
       si_subject_identifier = b_subject_identifier r,
       si_gender = b_gender r,
       si_date_of_birth = b_date_of_birth r,
       si_date_of_death = b_date_of_death r,
       si_ethnicity = b_ethnicity r\<rparr>"

definition check_subjects_exist :: "subject_input list \<Rightarrow> database \<Rightarrow> error + bool list" where
  "check_subjects_exist uniq_subs engine =
     for_each (\<lambda>sub. case check_subject_exists (si_subject_identifier sub)
                             (si_dataset_name sub) engine of
                        Inl e \<Rightarrow> Inl e
                      | Inr found \<Rightarrow> Inr (found = True))
       uniq_subs"

text \<open>
  After the insertion of the new subjects: a subject that was not there before must
  be there now, and every subject resolves to its id.
\<close>

definition resolve_subject_ids :: "(subject_input \<times> bool) list \<Rightarrow> database \<Rightarrow> error + int list" where
  "resolve_subject_ids uniq_subs engine =
     for_each (\<lambda>(sub, known).
                 case (if known = False
                       then (case check_subject_exists (si_subject_identifier sub)
                                    (si_dataset_name sub) engine of
                               Inl e \<Rightarrow> Inl e
                             | Inr found \<Rightarrow>
                                 if found = True then Inr ()
                                 else Inl (MeasurementFileException SubjectDoesNotExist))
                       else Inr ()) of
                   Inl e \<Rightarrow> Inl e
                 | Inr _ \<Rightarrow> get_subject_id (si_subject_identifier sub) (si_dataset_name sub) engine)
       uniq_subs"

text \<open>The unique variables of the frame, each resolved to its id.\<close>

definition resolve_variable_ids :: "string list \<Rightarrow> database \<Rightarrow> error + int list" where
  "resolve_variable_ids variable_names_formatted engine =
     for_each (\<lambda>name. case check_variable_name_exists name engine of
                         Inl e \<Rightarrow> Inl e
                       | Inr found \<Rightarrow>
                           if found = False
                           then Inl (MeasurementFileException VariableNameDoesNotExist)
                           else get_variable_id name engine)
       variable_names_formatted"

text \<open>
  \<open>variables_db\<close>: the variables with one of the ids, left-joined to their options;
  a variable without options has one row, with a NULL option name. (The query also
  selects \<open>range_min\<close> and \<open>range_max\<close>; no code reads them.)
\<close>

definition select_variables_db :: "int list \<Rightarrow> database \<Rightarrow> (variable_row \<times> string option) list" where
  "select_variables_db id_list engine =
     map (\<lambda>(v, vo). (v, map_option o_option_name vo))
       (filter (\<lambda>(v, vo). v_id v \<in> set id_list)
          (left_join (metadata_variables engine) (metadata_variable_options engine)
             (\<lambda>v vo. o_variable_id vo = v_id v)))"

text \<open>The value of a row against the data type of its variable.\<close>

definition validate_data_type :: "pylib \<Rightarrow> string \<Rightarrow> string \<Rightarrow> error + unit" where
  "validate_data_type lib data_type val =
     (if data_type = ''float''
      then (if float_converts lib val then Inr ()
            else Inl (MeasurementFileException CannotConvertToFloat))
      else if data_type = ''int''
      then (if int_converts lib val then Inr ()
            else Inl (MeasurementFileException CannotConvertToInt))
      else if data_type = ''boolean'' then Inr ()
      else if data_type = ''date''
      then (if match_date val = False then Inl (MeasurementFileException CannotConvertToDate)
            else Inr ())
      else if data_type = ''time''
      then (if match_time val = False then Inl (MeasurementFileException CannotConvertToTime)
            else Inr ())
      else Inr ())"

text \<open>
  The checks on a value that is not missing; the result is the \<open>value_deid\<close> of the
  row: nothing when the variable requires de-identification, the value otherwise.
\<close>

definition validate_value ::
  "pylib \<Rightarrow> (variable_row \<times> string option) list \<Rightarrow> variable_row \<Rightarrow> string \<Rightarrow>
     error + string option" where
  "validate_value lib variable_details variable val =
     (case validate_data_type lib (v_data_type variable) val of
        Inl e \<Rightarrow> Inl e
      | Inr _ \<Rightarrow>
         (if v_has_options variable = True \<and> Some val \<notin> set (map snd variable_details)
          then Inl (MeasurementFileException NotValidOption)
          else if v_deidentification_required variable = True then Inr None
          else Inr (Some val)))"

text \<open>
  The date of a measurement against the pattern and against the dates of birth and
  death of the row.
\<close>

definition check_measurement_date ::
  "pylib \<Rightarrow> string \<Rightarrow> string option \<Rightarrow> string option \<Rightarrow> error + unit" where
  "check_measurement_date lib measurement_date date_of_birth date_of_death =
     (if match_date measurement_date = False
      then Inl (MeasurementFileException MeasurementDateNotFormatted)
      else
        (case to_datetime lib measurement_date of
           Inl e \<Rightarrow> Inl e
         | Inr t \<Rightarrow>
            (case to_datetime_na lib date_of_birth of
               Inl e \<Rightarrow> Inl e
             | Inr dob \<Rightarrow>
                (if timestamp_less (Some t) dob
                 then Inl (MeasurementFileException MeasurementDateEarlierThanDOB)
                 else
                   (case date_of_death of
                      None \<Rightarrow> Inr ()
                    | Some dod_text \<Rightarrow>
                       (case to_datetime lib measurement_date of
                          Inl e \<Rightarrow> Inl e
                        | Inr t' \<Rightarrow>
                           (case to_datetime lib dod_text of
                              Inl e \<Rightarrow> Inl e
                            | Inr dod \<Rightarrow>
                               (if dod < t'
                                then Inl (MeasurementFileException MeasurementDateLaterThanDOD)
                                else Inr ()))))))))"

text \<open>
  What one pass of the loop over the rows computes for its row: the ids, the
  de-identified value, the visit grouping the duplicate check was asked about, and
  whether the measurement was found.
\<close>

record checked_row =
  c_row :: meas_row
  c_subject_id :: int
  c_variable_id :: int
  c_value_deid :: "string option"
  c_visit_grouping :: "string option"
  c_meas_exists :: bool

text \<open>
  Before the loop the four added columns are set for every row (lines 284 to 287).
\<close>

definition no_cells :: added_cells where
  "no_cells = \<lparr>a_subject_id = None, a_variable_id = None, a_value_deid = None,
               a_meas_exists = False\<rparr>"

text \<open>
  One pass of the loop, for one row. It writes into the frame as it goes: the two ids,
  then \<open>value_deid\<close>, then the visit grouping inherited from the variable, then
  \<open>meas_exists\<close>. The result is the outcome of the pass together with the row and its
  added cells as the pass leaves them, also when it raises.
\<close>

definition run_row ::
  "pylib \<Rightarrow> database \<Rightarrow> string \<Rightarrow> (subject_input \<times> int) list \<Rightarrow>
     (variable_row \<times> string option) list \<Rightarrow> meas_row \<Rightarrow>
     (error + checked_row) \<times> meas_row \<times> added_cells" where
  "run_row lib engine dataset_name uniq_subs variables_db row =
     (let formatted_var_name = formatted_name (b_dataset_name row) (b_variable_name row);
          variable_details = filter (\<lambda>(v, vo). v_variable_name v = formatted_var_name) variables_db;
          subject_identifier = b_subject_identifier row
      in case variable_details of
           [] \<Rightarrow> (Inl IndexError, row, no_cells)
         | (variable, vo) # _ \<Rightarrow>
      (case filter (\<lambda>(sub, subject_id). si_subject_identifier sub = subject_identifier) uniq_subs of
           [] \<Rightarrow> (Inl IndexError, row, no_cells)
         | (sub, subject_id) # _ \<Rightarrow>
      (let ids = no_cells\<lparr>a_subject_id := Some subject_id, a_variable_id := Some (v_id variable)\<rparr>
       in case (case b_value row of
                  None \<Rightarrow> Inr None
                | Some val \<Rightarrow> validate_value lib variable_details variable val) of
           Inl e \<Rightarrow> (Inl e, row, ids)
         | Inr value_deid \<Rightarrow>
      (let cells = ids\<lparr>a_value_deid := value_deid\<rparr>
       in case (case b_measurement_date row of
                  None \<Rightarrow> Inr ()
                | Some measurement_date \<Rightarrow>
                    check_measurement_date lib measurement_date
                      (b_date_of_birth row) (b_date_of_death row)) of
           Inl e \<Rightarrow> (Inl e, row, cells)
         | Inr _ \<Rightarrow>
      (case (case b_measurement_time row of
               None \<Rightarrow> Inr ()
             | Some measurement_time \<Rightarrow>
                 if match_time measurement_time = False
                 then Inl (MeasurementFileException MeasurementTimeNotFormatted)
                 else Inr ()) of
           Inl e \<Rightarrow> (Inl e, row, cells)
         | Inr _ \<Rightarrow>
      (let visit_grouping =
             (if b_visit_grouping row = None \<and> v_associated_visit variable \<noteq> None
              then v_associated_visit variable
              else b_visit_grouping row);
           written = row\<lparr>b_visit_grouping := visit_grouping\<rparr>
       in case check_measurement_exists lib dataset_name subject_identifier formatted_var_name
                 engine (b_measurement_date row) (b_measurement_time row) visit_grouping of
            Inl e \<Rightarrow> (Inl e, written, cells)
          | Inr found \<Rightarrow>
              (Inr \<lparr>c_row = row,
                     c_subject_id = subject_id,
                     c_variable_id = v_id variable,
                     c_value_deid = value_deid,
                     c_visit_grouping = visit_grouping,
                     c_meas_exists = (found = True)\<rparr>,
               written, cells\<lparr>a_meas_exists := (found = True)\<rparr>)))))))"

text \<open>The outcome of a pass.\<close>

definition process_row ::
  "pylib \<Rightarrow> database \<Rightarrow> string \<Rightarrow> (subject_input \<times> int) list \<Rightarrow>
     (variable_row \<times> string option) list \<Rightarrow> meas_row \<Rightarrow> error + checked_row" where
  "process_row lib engine dataset_name uniq_subs variables_db row =
     fst (run_row lib engine dataset_name uniq_subs variables_db row)"

text \<open>
  The frame as the loop leaves it: the rows up to the first that raises are as their
  passes left them, the rows after it are untouched.
\<close>

fun rows_after_loop ::
  "(meas_row \<Rightarrow> (error + checked_row) \<times> meas_row \<times> added_cells) \<Rightarrow> meas_row list \<Rightarrow>
     (meas_row \<times> added_cells) list" where
  "rows_after_loop pass [] = []"
| "rows_after_loop pass (row # rows) =
     (case pass row of
        (Inl e, left) \<Rightarrow> left # map (\<lambda>r. (r, no_cells)) rows
      | (Inr c, left) \<Rightarrow> left # rows_after_loop pass rows)"

text \<open>The rows appended to the measurements table, with the ids the store gives them.\<close>

definition new_measurement_rows :: "int \<Rightarrow> checked_row list \<Rightarrow> measurement_row list" where
  "new_measurement_rows first_id rows =
     map (\<lambda>(k, c).
            \<lparr>m_id = first_id + int k,
              m_subject_id = c_subject_id c,
              m_variable_id = c_variable_id c,
              m_measurement_date = b_measurement_date (c_row c),
              m_measurement_time = b_measurement_time (c_row c),
              m_visit_grouping = c_visit_grouping c,
              m_value = b_value (c_row c),
              m_value_deid = c_value_deid c\<rparr>)
         (enumerate 0 rows)"

text \<open>
  \<open>insert_measurements\<close> returns nothing and prints the counts of new and old subjects
  and measurements. It changes the object it was given and the database; the model
  returns the counts, the object and the database as the call leaves them. The first
  stage resolves the dataset and inserts the new subjects; it works on frames of its
  own.
\<close>

record report =
  new_subs :: nat
  old_subs :: nat
  new_meas :: nat
  old_meas :: nat

definition insert_new_subjects ::
  "pylib \<Rightarrow> string list \<Rightarrow> meas_row list \<Rightarrow> database \<Rightarrow> nat list \<Rightarrow>
     ((error + (string \<times> (subject_input \<times> bool) list)) \<times> database) option" where
  "insert_new_subjects lib subject_template rows engine rng =
     (case rows of
        [] \<Rightarrow> Some (Inl IndexError, engine)
      | first_row # _ \<Rightarrow>
         (let dataset_name = b_dataset_name first_row in
          case check_dataset_name_exists dataset_name engine of
            Inl e \<Rightarrow> Some (Inl e, engine)
          | Inr _ \<Rightarrow>
             (case get_dataset_id dataset_name engine of
                Inl e \<Rightarrow> Some (Inl e, engine)
              | Inr dataset_id \<Rightarrow>
                 (let uniq_subs = drop_duplicates (map subject_projection rows) in
                  case check_subjects_exist uniq_subs engine of
                    Inl e \<Rightarrow> Some (Inl e, engine)
                  | Inr known \<Rightarrow>
                     (let subs_to_insert = map fst (filter (\<lambda>(sub, k). k = False) (zip uniq_subs known))
                      in if length subs_to_insert > 0
                         then (case insert_subjects lib subject_template
                                      \<lparr>sf_columns = subject_columns, sf_rows = subs_to_insert\<rparr>
                                      engine rng of
                                 None \<Rightarrow> None
                               | Some (Inl e, engine') \<Rightarrow> Some (Inl e, engine')
                               | Some (Inr _, engine') \<Rightarrow>
                                   Some (Inr (dataset_name, zip uniq_subs known), engine'))
                         else Some (Inr (dataset_name, zip uniq_subs known), engine))))))"

text \<open>
  The second stage, on the database the first one leaves: the ids of the subjects and
  of the variables, and the loop over the rows. The result is the outcome of the
  stage together with the rows of the frame and their added cells as the loop leaves
  them; there are none (\<open>None\<close>) when the stage raises before the loop, and the frame
  is then as it was.
\<close>

definition loop_stage ::
  "pylib \<Rightarrow> string \<Rightarrow> (subject_input \<times> bool) list \<Rightarrow> meas_row list \<Rightarrow> database \<Rightarrow>
     (error + checked_row list) \<times> (meas_row \<times> added_cells) list option" where
  "loop_stage lib dataset_name uniq_subs rows engine =
     (case resolve_subject_ids uniq_subs engine of
        Inl e \<Rightarrow> (Inl e, None)
      | Inr subject_ids \<Rightarrow>
         (let uniq_vars = drop_duplicates (map (\<lambda>r. (b_dataset_name r, b_variable_name r)) rows)
          in case resolve_variable_ids (map (\<lambda>(d, v). formatted_name d v) uniq_vars) engine of
               Inl e \<Rightarrow> (Inl e, None)
             | Inr variable_ids \<Rightarrow>
                 (let pass = run_row lib engine dataset_name
                               (zip (map fst uniq_subs) subject_ids)
                               (select_variables_db variable_ids engine)
                  in (for_each (\<lambda>row. fst (pass row)) rows,
                      Some (rows_after_loop pass rows)))))"

text \<open>The outcome of the stage.\<close>

definition check_rows ::
  "pylib \<Rightarrow> string \<Rightarrow> (subject_input \<times> bool) list \<Rightarrow> meas_row list \<Rightarrow> database \<Rightarrow>
     error + checked_row list" where
  "check_rows lib dataset_name uniq_subs rows engine =
     fst (loop_stage lib dataset_name uniq_subs rows engine)"

definition write_frame ::
  "formatted_measurements \<Rightarrow> (meas_row \<times> added_cells) list option \<Rightarrow> formatted_measurements" where
  "write_frame formatted_meas left =
     (case left of
        None \<Rightarrow> formatted_meas
      | Some rows \<Rightarrow> formatted_meas\<lparr>df := map fst rows, added_columns := Some (map snd rows)\<rparr>)"

text \<open>
  After the loop the frame is cut down to the rows that were not found in the
  measurements table (line 387), and these are appended to the table.
\<close>

definition insert_measurements ::
  "pylib \<Rightarrow> string list \<Rightarrow> formatted_measurements \<Rightarrow> database \<Rightarrow> nat list \<Rightarrow>
     ((error + report) \<times> formatted_measurements \<times> database) option" where
  "insert_measurements lib subject_template formatted_meas engine rng =
     (if formatted formatted_meas = False
      then Some (Inl (MeasurementFileException NotSetAsFormatted), formatted_meas, engine)
      else
        (case insert_new_subjects lib subject_template (df formatted_meas) engine rng of
           None \<Rightarrow> None
         | Some (Inl e, engine') \<Rightarrow> Some (Inl e, formatted_meas, engine')
         | Some (Inr (dataset_name, uniq_subs), engine') \<Rightarrow>
            (case loop_stage lib dataset_name uniq_subs (df formatted_meas) engine' of
               (Inl e, left) \<Rightarrow> Some (Inl e, write_frame formatted_meas left, engine')
             | (Inr checked, left) \<Rightarrow>
                (let to_insert = filter (\<lambda>c. c_meas_exists c = False) checked;
                     remaining =
                       write_frame formatted_meas
                         (map_option (filter (\<lambda>(row, cells). a_meas_exists cells = False)) left);
                     counts = \<lparr>new_subs = length (filter (\<lambda>(sub, k). k = False) uniq_subs),
                               old_subs = length (filter (\<lambda>(sub, k). k = True) uniq_subs),
                               new_meas = length to_insert,
                               old_meas = length (filter (\<lambda>c. c_meas_exists c = True) checked)\<rparr>
                 in if length to_insert > 0
                    then Some (Inr counts, remaining,
                               engine'\<lparr>measurements := measurements engine' @
                                 new_measurement_rows (next_id (map m_id (measurements engine')))
                                   to_insert\<rparr>)
                    else Some (Inr counts, remaining, engine')))))"

section \<open>Reference definitions and example data\<close>

text \<open>
  The normalisation the specification speaks of (Python's \<open>strip\<close> then \<open>upper\<close>, on
  ASCII text). No function of datasets.py calls it; it is here to state the
  round-trip property the way the specification words it.
\<close>

definition spec_upper_char :: "char \<Rightarrow> char" where
  "spec_upper_char c =
     (case map_of (zip ''abcdefghijklmnopqrstuvwxyz'' ''ABCDEFGHIJKLMNOPQRSTUVWXYZ'') c of
        Some u \<Rightarrow> u
      | None \<Rightarrow> c)"

definition spec_is_space :: "char \<Rightarrow> bool" where
  "spec_is_space c = (c \<in> set [CHR '' '', CHR 0x09, CHR 0x0A, CHR 0x0B, CHR 0x0C, CHR 0x0D])"

definition spec_normalised_upper_trimmed :: "string \<Rightarrow> string" where
  "spec_normalised_upper_trimmed s =
     map spec_upper_char (rev (dropWhile spec_is_space (rev (dropWhile spec_is_space s))))"

text \<open>
  A reading of the text of a condition, for the examples: a disjunction (\<open>OR\<close>) of
  conjunctions (\<open>AND\<close>) of comparisons \<open>a = b\<close>, where \<open>a\<close> and \<open>b\<close> are column names
  or literals between apostrophes; \<open>AND\<close> binds tighter than \<open>OR\<close>, and a comparison
  with NULL is not true. Any other text is a syntax error.
\<close>

datatype sql_token = Name string | Literal string | Equals | And | Or

datatype scan_mode = Outside | InLiteral string | InName string

definition name_characters :: string where
  "name_characters = ''abcdefghijklmnopqrstuvwxyzABCDEFGHIJKLMNOPQRSTUVWXYZ0123456789_.''"

definition word_token :: "string \<Rightarrow> sql_token" where
  "word_token w = (if w = ''AND'' then And else if w = ''OR'' then Or else Name w)"

definition scan_start :: "char \<Rightarrow> (scan_mode \<times> sql_token list) option" where
  "scan_start c =
     (if c = CHR '' '' then Some (Outside, [])
      else if c = CHR ''='' then Some (Outside, [Equals])
      else if c = CHR 0x27 then Some (InLiteral [], [])
      else if c \<in> set name_characters then Some (InName [c], [])
      else None)"

fun sql_tokens :: "scan_mode \<Rightarrow> string \<Rightarrow> sql_token list option" where
  "sql_tokens mode [] =
     (case mode of
        Outside \<Rightarrow> Some []
      | InName w \<Rightarrow> Some [word_token (rev w)]
      | InLiteral t \<Rightarrow> None)"
| "sql_tokens mode (c # s) =
     (case mode of
        InLiteral t \<Rightarrow>
          if c = CHR 0x27 then map_option ((#) (Literal (rev t))) (sql_tokens Outside s)
          else sql_tokens (InLiteral (c # t)) s
      | InName w \<Rightarrow>
          if c \<in> set name_characters then sql_tokens (InName (c # w)) s
          else (case scan_start c of
                  None \<Rightarrow> None
                | Some (mode', tokens) \<Rightarrow>
                    map_option (\<lambda>rest. word_token (rev w) # tokens @ rest) (sql_tokens mode' s))
      | Outside \<Rightarrow>
          (case scan_start c of
             None \<Rightarrow> None
           | Some (mode', tokens) \<Rightarrow> map_option ((@) tokens) (sql_tokens mode' s)))"

fun split_on :: "'a \<Rightarrow> 'a list \<Rightarrow> 'a list list" where
  "split_on sep [] = [[]]"
| "split_on sep (x # xs) =
     (let groups = split_on sep xs in
      if x = sep then [] # groups else (x # hd groups) # tl groups)"

definition operand_value :: "sql_token \<Rightarrow> (sql_row \<Rightarrow> sql_value) option" where
  "operand_value token =
     (case token of
        Name column \<Rightarrow> Some (\<lambda>row. case map_of row column of None \<Rightarrow> SqlNull | Some v \<Rightarrow> v)
      | Literal t \<Rightarrow> Some (\<lambda>row. SqlText t)
      | _ \<Rightarrow> None)"

definition comparison_test :: "sql_token list \<Rightarrow> (sql_row \<Rightarrow> bool) option" where
  "comparison_test tokens =
     (case tokens of
        [a, Equals, b] \<Rightarrow>
          (case (operand_value a, operand_value b) of
             (Some x, Some y) \<Rightarrow> Some (\<lambda>row. x row = y row \<and> x row \<noteq> SqlNull)
           | _ \<Rightarrow> None)
      | _ \<Rightarrow> None)"

definition reference_reads :: "string \<Rightarrow> error + (sql_row \<Rightarrow> bool)" where
  "reference_reads condition =
     (case sql_tokens Outside condition of
        None \<Rightarrow> Inl ProgrammingError
      | Some tokens \<Rightarrow>
         (let tests = map (\<lambda>conjunction. map comparison_test (split_on And conjunction))
                        (split_on Or tokens)
          in if list_all (list_all (\<lambda>t. t \<noteq> None)) tests
             then Inr (\<lambda>row. list_ex (list_all (\<lambda>t. case t of None \<Rightarrow> False | Some holds \<Rightarrow> holds row))
                                tests)
             else Inl ProgrammingError))"

text \<open>Databases to run the model on.\<close>

definition empty_db :: database where
  "empty_db = \<lparr>datasets = [], subjects = [], metadata_variables = [],
                metadata_variable_options = [], measurements = [], reads = reference_reads\<rparr>"

definition one_dataset_db :: database where
  "one_dataset_db = empty_db\<lparr>datasets := [\<lparr>d_id = 7, d_dataset_name = ''STUDY1''\<rparr>]\<rparr>"

definition twin_dataset_db :: database where
  "twin_dataset_db = empty_db\<lparr>datasets :=
     [\<lparr>d_id = 7, d_dataset_name = ''STUDY1''\<rparr>, \<lparr>d_id = 8, d_dataset_name = ''STUDY1''\<rparr>]\<rparr>"

text \<open>
  An instance of the library functions. A date \<open>YYYY-MM-DD\<close> of the calendar between
  the years 1700 and 2200 is the number \<open>YYYYMMDD\<close>. A pattern \<open>^\<close> followed by
  characters that mean themselves in a regular expression matches the texts that
  start with them. Unsigned decimal numbers convert. Everything else raises.
\<close>

fun decimal_from :: "nat \<Rightarrow> string \<Rightarrow> nat option" where
  "decimal_from acc [] = Some acc"
| "decimal_from acc (c # s) =
     (case map_of (zip digits [0, 1, 2, 3, 4, 5, 6, 7, 8, 9]) c of
        None \<Rightarrow> None
      | Some d \<Rightarrow> decimal_from (10 * acc + d) s)"

definition days_in_month :: "nat \<Rightarrow> nat \<Rightarrow> nat" where
  "days_in_month year month =
     (if month \<in> set [4, 6, 9, 11] then 30
      else if month = 2
      then (if year mod 4 = 0 \<and> (year mod 100 \<noteq> 0 \<or> year mod 400 = 0) then 29 else 28)
      else 31)"

definition reference_to_datetime :: "string \<Rightarrow> error + int" where
  "reference_to_datetime s =
     (if length s = 10 \<and> match_date s
      then (case decimal_from 0 (filter (\<lambda>c. c \<noteq> CHR ''-'') s) of
              None \<Rightarrow> Inl LibraryError
            | Some n \<Rightarrow>
                (let year = n div 10000; month = (n div 100) mod 100; day = n mod 100 in
                 if 1700 \<le> year \<and> year \<le> 2200 \<and> 1 \<le> month \<and> month \<le> 12 \<and>
                    1 \<le> day \<and> day \<le> days_in_month year month
                 then Inr (int n)
                 else Inl LibraryError))
      else Inl LibraryError)"

definition word_characters :: string where
  "word_characters = ascii_letters @ digits @ ''_''"

definition regex_characters :: string where
  "regex_characters =
     [CHR ''.'', CHR ''^'', CHR ''$'', CHR ''*'', CHR ''+'', CHR ''?'', CHR ''{'', CHR ''}'',
      CHR ''['', CHR '']'', CHR 0x5C, CHR ''|'', CHR ''('', CHR '')'']"

definition reference_re_match :: "string \<Rightarrow> string \<Rightarrow> error + bool" where
  "reference_re_match pattern s =
     (case pattern of
        [] \<Rightarrow> Inl LibraryError
      | c # literal \<Rightarrow>
          if c = CHR ''^'' \<and> list_all (\<lambda>x. x \<notin> set regex_characters) literal
          then Inr (take (length literal) s = literal)
          else Inl LibraryError)"

definition reference_lib :: pylib where
  "reference_lib =
     \<lparr>to_datetime = reference_to_datetime,
       re_match = reference_re_match,
       float_converts = (\<lambda>s. s \<noteq> [] \<and> set s \<subseteq> set (digits @ ''.'') \<and>
                               length (filter (\<lambda>c. c = CHR ''.'') s) \<le> 1 \<and> s \<noteq> ''.''),
       int_converts = (\<lambda>s. s \<noteq> [] \<and> set s \<subseteq> set digits)\<rparr>"

text \<open>
  A database with the dataset \<open>STUDY1\<close>, one subject of it and two variables, one of
  which requires de-identification.
\<close>

definition study_db :: database where
  "study_db =
     \<lparr>datasets = [\<lparr>d_id = 1, d_dataset_name = ''STUDY1''\<rparr>],
       subjects =
         [\<lparr>s_id = 1, s_dataset_id = 1, s_subject_identifier = ''S000'',
           s_subject_identifier_deid = ''aaaaaaaaaa'', s_gender = Some ''F'',
           s_date_of_birth = Some 19700101, s_date_of_death = None, s_ethnicity = None\<rparr>],
       metadata_variables =
         [\<lparr>v_id = 1, v_variable_name = ''STUDY1_hr'', v_data_type = ''int'',
           v_associated_visit = None, v_has_options = False,
           v_deidentification_required = False\<rparr>,
          \<lparr>v_id = 2, v_variable_name = ''STUDY1_postcode'', v_data_type = ''str'',
           v_associated_visit = Some ''baseline'', v_has_options = False,
           v_deidentification_required = True\<rparr>],
       metadata_variable_options = [],
       measurements = [],
       reads = reference_reads\<rparr>"

text \<open>
  A random source whose first draw is the pseudonym \<open>aaaaaaaaaa\<close>, which the subject of
  \<open>study_db\<close> has, and whose second draw is \<open>cccccccccc\<close>.
\<close>

definition colliding_source :: "nat list" where
  "colliding_source =
     [0, 0, 0, 0, 0, 0, 0, 0, 0, 0, 2, 2, 2, 2, 2, 2, 2, 2, 2, 2]"

definition one_subject_frame :: subjects_frame where
  "one_subject_frame =
     \<lparr>sf_columns = subject_columns,
       sf_rows = [\<lparr>si_dataset_name = ''STUDY1'', si_subject_identifier = ''S001'',
                  si_gender = Some ''M'', si_date_of_birth = Some ''1980-05-17'',
                  si_date_of_death = None, si_ethnicity = None\<rparr>]\<rparr>"

definition study_db_with_S001 :: database where
  "study_db_with_S001 =
     study_db\<lparr>subjects := subjects study_db @
       [\<lparr>s_id = 2, s_dataset_id = 1, s_subject_identifier = ''S001'',
         s_subject_identifier_deid = ''cccccccccc'', s_gender = Some ''M'',
         s_date_of_birth = Some 19800517, s_date_of_death = None, s_ethnicity = None\<rparr>]\<rparr>"

text \<open>
  The pseudonyms of a batch, read off the random source. The source holds a sequence
  of candidates, ten draws each. A candidate is taken when a subject of the store has
  it. The rows of a batch get, in order, the candidates that are neither taken nor
  given to an earlier row; when the source holds too few of these, the loops do not
  return.
\<close>

function candidates :: "nat list \<Rightarrow> string list" where
  "candidates rng =
     (case random_choices ascii_letters 10 rng of
        None \<Rightarrow> []
      | Some (candidate, rng') \<Rightarrow> candidate # candidates rng')"
  by pat_completeness auto
termination
  by (relation "measure length") (auto simp: random_choices_def split: if_splits)

declare candidates.simps [simp del]

definition deid_taken :: "database \<Rightarrow> string \<Rightarrow> bool" where
  "deid_taken engine p = (p \<in> set (map s_subject_identifier_deid (subjects engine)))"

fun pick_pseudonyms :: "(string \<Rightarrow> bool) \<Rightarrow> nat \<Rightarrow> string list \<Rightarrow> string list \<Rightarrow> string list option" where
  "pick_pseudonyms taken 0 assigned pool = Some assigned"
| "pick_pseudonyms taken (Suc n) assigned [] = None"
| "pick_pseudonyms taken (Suc n) assigned (p # pool) =
     (if taken p \<or> p \<in> set assigned then pick_pseudonyms taken (Suc n) assigned pool
      else pick_pseudonyms taken n (assigned @ [p]) pool)"

text \<open>
  Two new subjects of \<open>STUDY1\<close>, and a random source whose candidates are
  \<open>aaaaaaaaaa\<close> (taken in \<open>study_db\<close>), \<open>cccccccccc\<close>, \<open>cccccccccc\<close> again and
  \<open>eeeeeeeeee\<close>.
\<close>

definition two_subject_frame :: subjects_frame where
  "two_subject_frame =
     \<lparr>sf_columns = subject_columns,
       sf_rows = [\<lparr>si_dataset_name = ''STUDY1'', si_subject_identifier = ''S001'',
                  si_gender = Some ''M'', si_date_of_birth = Some ''1980-05-17'',
                  si_date_of_death = None, si_ethnicity = None\<rparr>,
                 \<lparr>si_dataset_name = ''STUDY1'', si_subject_identifier = ''S002'',
                  si_gender = Some ''F'', si_date_of_birth = None,
                  si_date_of_death = None, si_ethnicity = None\<rparr>]\<rparr>"

definition repeating_source :: "nat list" where
  "repeating_source =
     [0, 0, 0, 0, 0, 0, 0, 0, 0, 0, 2, 2, 2, 2, 2, 2, 2, 2, 2, 2,
      2, 2, 2, 2, 2, 2, 2, 2, 2, 2, 4, 4, 4, 4, 4, 4, 4, 4, 4, 4]"

definition study_db_with_two :: database where
  "study_db_with_two =
     study_db\<lparr>subjects := subjects study_db @
       [\<lparr>s_id = 2, s_dataset_id = 1, s_subject_identifier = ''S001'',
         s_subject_identifier_deid = ''cccccccccc'', s_gender = Some ''M'',
         s_date_of_birth = Some 19800517, s_date_of_death = None, s_ethnicity = None\<rparr>,
        \<lparr>s_id = 3, s_dataset_id = 1, s_subject_identifier = ''S002'',
         s_subject_identifier_deid = ''eeeeeeeeee'', s_gender = Some ''F'',
         s_date_of_birth = None, s_date_of_death = None, s_ethnicity = None\<rparr>]\<rparr>"

text \<open>Measurement files of one row, over a template of the eleven columns.\<close>

definition example_template :: "string list" where
  "example_template =
     [''dataset_name'', ''subject_identifier'', ''variable_name'', ''gender'',
      ''date_of_birth'', ''date_of_death'', ''measurement_date'', ''measurement_time'',
      ''visit_grouping'', ''value'', ''ethnicity'']"

definition heart_rate_row :: raw_row where
  "heart_rate_row =
     \<lparr>r_dataset_name = Some ''STUDY1'', r_subject_identifier = Some ''S001'',
       r_variable_name = Some ''hr'', r_gender = None, r_date_of_birth = None,
       r_date_of_death = None, r_measurement_date = None, r_measurement_time = None,
       r_visit_grouping = None, r_value = Some ''72'', r_ethnicity = None, r_other = []\<rparr>"

definition spaced_name_file :: raw_file where
  "spaced_name_file =
     \<lparr>f_columns = example_template,
       f_rows = [heart_rate_row\<lparr>r_dataset_name := Some ''MY STUDY''\<rparr>]\<rparr>"

definition year_1066_file :: raw_file where
  "year_1066_file =
     \<lparr>f_columns = example_template,
       f_rows = [heart_rate_row\<lparr>r_date_of_birth := Some ''1066-10-14''\<rparr>]\<rparr>"

definition year_3023_file :: raw_file where
  "year_3023_file =
     \<lparr>f_columns = example_template,
       f_rows = [heart_rate_row\<lparr>r_measurement_date := Some ''3023-01-01''\<rparr>]\<rparr>"

text \<open>
  A file whose dataset name is not plain: pasted into a query, its apostrophes end
  the literal, and the rest of the name is read as SQL.
\<close>

definition pasted_sql_file :: raw_file where
  "pasted_sql_file =
     \<lparr>f_columns = example_template,
       f_rows = [heart_rate_row\<lparr>r_dataset_name := Some ''x' OR 'a'='a''\<rparr>]\<rparr>"

definition pasted_sql_batch :: formatted_measurements where
  "pasted_sql_batch =
     \<lparr>df = [\<lparr>b_dataset_name = ''x' OR 'a'='a'', b_subject_identifier = ''S001'',
              b_variable_name = ''hr'', b_gender = None, b_date_of_birth = None,
              b_date_of_death = None, b_measurement_date = None, b_measurement_time = None,
              b_visit_grouping = None, b_value = Some ''72'', b_ethnicity = None\<rparr>],
       formatted = True, added_columns = None\<rparr>"

definition one_dataset_db_with_S001 :: database where
  "one_dataset_db_with_S001 =
     one_dataset_db\<lparr>subjects :=
       [\<lparr>s_id = 1, s_dataset_id = 7, s_subject_identifier = ''S001'',
         s_subject_identifier_deid = ''cccccccccc'', s_gender = None,
         s_date_of_birth = None, s_date_of_death = None, s_ethnicity = None\<rparr>]\<rparr>"

text \<open>A valid file of one row, and the frame the validator makes of it.\<close>

definition heart_rate_file :: raw_file where
  "heart_rate_file = \<lparr>f_columns = example_template, f_rows = [heart_rate_row]\<rparr>"

definition heart_rate_meas_row :: meas_row where
  "heart_rate_meas_row =
     \<lparr>b_dataset_name = ''STUDY1'', b_subject_identifier = ''S001'',
       b_variable_name = ''hr'', b_gender = None, b_date_of_birth = None,
       b_date_of_death = None, b_measurement_date = None, b_measurement_time = None,
       b_visit_grouping = None, b_value = Some ''72'', b_ethnicity = None\<rparr>"

definition heart_rate_batch :: formatted_measurements where
  "heart_rate_batch = \<lparr>df = [heart_rate_meas_row], formatted = True, added_columns = None\<rparr>"

text \<open>
  Two measurements of the subject \<open>S000\<close>, who is in \<open>study_db\<close>: a heart rate,
  and a postcode, whose variable requires de-identification.
\<close>

definition known_subject_row :: meas_row where
  "known_subject_row = heart_rate_meas_row\<lparr>b_subject_identifier := ''S000''\<rparr>"

definition postcode_row :: meas_row where
  "postcode_row =
     known_subject_row\<lparr>b_variable_name := ''postcode'', b_value := Some ''AB1 2CD''\<rparr>"

definition two_variable_batch :: formatted_measurements where
  "two_variable_batch = \<lparr>df = [known_subject_row, postcode_row], formatted = True, added_columns = None\<rparr>"

definition study_db_measured :: database where
  "study_db_measured =
     study_db\<lparr>measurements :=
       [\<lparr>m_id = 1, m_subject_id = 1, m_variable_id = 1, m_measurement_date = None,
         m_measurement_time = None, m_visit_grouping = None, m_value = Some ''72'',
         m_value_deid = Some ''72''\<rparr>,
        \<lparr>m_id = 2, m_subject_id = 1, m_variable_id = 2, m_measurement_date = None,
         m_measurement_time = None, m_visit_grouping = Some ''baseline'',
         m_value = Some ''AB1 2CD'', m_value_deid = None\<rparr>]\<rparr>"



text \<open>
  Heart rates of the subject \<open>S000\<close>, born on 1980-05-17 and dead on 1990-03-04
  according to the file: measured on the day of birth, on the day of death, the day
  before the one and the day after the other.
\<close>

definition lifetime_row :: meas_row where
  "lifetime_row =
     known_subject_row\<lparr>b_date_of_birth := Some ''1980-05-17'',
                        b_date_of_death := Some ''1990-03-04''\<rparr>"

definition at_birth_row :: meas_row where
  "at_birth_row = lifetime_row\<lparr>b_measurement_date := Some ''1980-05-17''\<rparr>"

definition at_death_row :: meas_row where
  "at_death_row = lifetime_row\<lparr>b_measurement_date := Some ''1990-03-04''\<rparr>"

definition before_birth_row :: meas_row where
  "before_birth_row = lifetime_row\<lparr>b_measurement_date := Some ''1980-05-16''\<rparr>"

definition after_death_row :: meas_row where
  "after_death_row = lifetime_row\<lparr>b_measurement_date := Some ''1990-03-05''\<rparr>"


definition early_batch :: formatted_measurements where
  "early_batch = \<lparr>df = [before_birth_row], formatted = True, added_columns = None\<rparr>"

definition late_batch :: formatted_measurements where
  "late_batch =
     \<lparr>df = [at_birth_row, after_death_row], formatted = True, added_columns = None\<rparr>"


text \<open>
  Two heart rates of the subject \<open>S000\<close> with no date, time or visit: two different
  rows of a file that share the tuple of the duplicate check.
\<close>

definition repeated_key_file :: raw_file where
  "repeated_key_file =
     \<lparr>f_columns = example_template,
       f_rows = [heart_rate_row\<lparr>r_subject_identifier := Some ''S000''\<rparr>,
                 heart_rate_row\<lparr>r_subject_identifier := Some ''S000'', r_value := Some ''73''\<rparr>]\<rparr>"

definition repeated_key_batch :: formatted_measurements where
  "repeated_key_batch =
     \<lparr>df = [known_subject_row, known_subject_row\<lparr>b_value := Some ''73''\<rparr>],
       formatted = True, added_columns = None\<rparr>"

definition study_db_two_rates :: database where
  "study_db_two_rates =
     study_db\<lparr>measurements :=
       [\<lparr>m_id = 1, m_subject_id = 1, m_variable_id = 1, m_measurement_date = None,
         m_measurement_time = None, m_visit_grouping = None, m_value = Some ''72'',
         m_value_deid = Some ''72''\<rparr>,
        \<lparr>m_id = 2, m_subject_id = 1, m_variable_id = 1, m_measurement_date = None,
         m_measurement_time = None, m_visit_grouping = None, m_value = Some ''73'',
         m_value_deid = Some ''73''\<rparr>]\<rparr>"

definition two_variable_file :: raw_file where
  "two_variable_file =
     \<lparr>f_columns = example_template,
       f_rows = [heart_rate_row\<lparr>r_subject_identifier := Some ''S000''\<rparr>,
                 heart_rate_row\<lparr>r_subject_identifier := Some ''S000'',
                                r_variable_name := Some ''postcode'',
                                r_value := Some ''AB1 2CD''\<rparr>]\<rparr>"

section \<open>Properties of datasets.py\<close>

lemma fold_max_ge_init: "a \<le> fold max ids (a::int)"
proof (induction ids arbitrary: a)
  case Nil
  show ?case by simp
next
  case (Cons x xs)
  have "a \<le> max x a" by simp
  also have "\<dots> \<le> fold max xs (max x a)" by (rule Cons.IH)
  finally show ?case by simp
qed

lemma fold_max_ge_elem: "i \<in> set ids \<Longrightarrow> i \<le> fold max ids (a::int)"
proof (induction ids arbitrary: a)
  case Nil
  then show ?case by simp
next
  case (Cons x xs)
  show ?case
  proof (cases "i = x")
    case True
    have "x \<le> max x a" by simp
    also have "\<dots> \<le> fold max xs (max x a)" by (rule fold_max_ge_init)
    finally show ?thesis using True by simp
  next
    case False
    with Cons.prems have "i \<in> set xs" by simp
    then show ?thesis using Cons.IH by simp
  qed
qed

lemma next_id_greater: "i \<in> set ids \<Longrightarrow> i < next_id ids"
  using fold_max_ge_elem [of i ids 0] by (simp add: next_id_def)

lemma next_id_fresh: "next_id ids \<notin> set ids"
  using next_id_greater [of "next_id ids" ids] by auto

subsection \<open>Plain arguments\<close>

lemma sql_where_plain:
  assumes "list_all (\<lambda>(column, x). plain_text x) comparisons"
  shows "sql_where engine comparisons cells rows =
           Inr (filter (\<lambda>r. list_all (\<lambda>(column, x). map_of (cells r) column = Some (SqlText x))
                               comparisons) rows)"
  using assms by (simp add: sql_where_def)

lemma select_datasets_by_name_plain:
  "plain_text name \<Longrightarrow> select_datasets_by_name name engine = Inr (datasets_named name engine)"
  by (simp add: select_datasets_by_name_def sql_where_plain datasets_named_def
      dataset_cells_def text_or_null_def)

lemma check_dataset_name_exists_plain:
  "plain_text name \<Longrightarrow>
     check_dataset_name_exists name engine =
       (let result = length (datasets_named name engine) in
        if result = 0 then Inr False
        else if result = 1 then Inr True
        else Inl (DatasetDatabaseException MoreThanOneDatasetName))"
  by (simp add: check_dataset_name_exists_def select_datasets_by_name_plain)

lemma get_dataset_id_plain:
  "plain_text name \<Longrightarrow>
     get_dataset_id name engine =
       (let result = map d_id (datasets_named name engine) in
        if length result = 0 then Inl (DatasetDatabaseException NoRowsMatchingName)
        else if length result > 1 then Inl (DatasetDatabaseException TooManyRowsMatchingName)
        else Inr (hd result))"
  by (simp add: get_dataset_id_def select_datasets_by_name_plain)

lemma plain_text_append [simp]: "plain_text (x @ y) \<longleftrightarrow> plain_text x \<and> plain_text y"
  by (simp add: plain_text_def)

text \<open>
  For a plain name, existence and resolution agree on the number of rows of the
  datasets table that carry the name: with no such row \<open>check_dataset_name_exists\<close>
  returns False and \<open>get_dataset_id\<close> raises the not-found error; with exactly one
  it returns True and \<open>get_dataset_id\<close> returns the id of that row; with two or more
  both raise their consistency error.
\<close>

lemma plain_dataset_lookups_agree:
  assumes "plain_text dataset_name"
  shows "datasets_named dataset_name engine = [] \<Longrightarrow>
           check_dataset_name_exists dataset_name engine = Inr False \<and>
           get_dataset_id dataset_name engine =
             Inl (DatasetDatabaseException NoRowsMatchingName)"
    and "datasets_named dataset_name engine = [d] \<Longrightarrow>
           check_dataset_name_exists dataset_name engine = Inr True \<and>
           get_dataset_id dataset_name engine = Inr (d_id d)"
    and "2 \<le> length (datasets_named dataset_name engine) \<Longrightarrow>
           check_dataset_name_exists dataset_name engine =
             Inl (DatasetDatabaseException MoreThanOneDatasetName) \<and>
           get_dataset_id dataset_name engine =
             Inl (DatasetDatabaseException TooManyRowsMatchingName)"
  using assms
  by (auto simp: check_dataset_name_exists_plain get_dataset_id_plain Let_def)

subsection \<open>A name that is not plain\<close>

text \<open>
  C2, on the code. The name \<open>x' OR 'a'='a\<close> is the name of no dataset of
  \<open>one_dataset_db\<close>, whose only dataset is \<open>STUDY1\<close> with the id 7. Pasted into the
  query it makes the condition \<^verbatim>\<open>dataset_name = 'x' OR 'a'='a'\<close>, which every row
  satisfies: \<open>check_dataset_name_exists\<close> returns True and \<open>get_dataset_id\<close> returns 7.
\<close>

theorem dataset_lookups_read_pasted_sql:
  "datasets_named ''x' OR 'a'='a'' one_dataset_db = [] \<and>
   check_dataset_name_exists ''x' OR 'a'='a'' one_dataset_db = Inr True \<and>
   get_dataset_id ''x' OR 'a'='a'' one_dataset_db = Inr 7"
  by (simp add: datasets_named_def check_dataset_name_exists_def get_dataset_id_def
      select_datasets_by_name_def sql_where_def plain_text_def plain_characters_def
      one_dataset_db_def empty_db_def reference_reads_def quoted_def scan_start_def
      name_characters_def word_token_def comparison_test_def operand_value_def Let_def)

subsection \<open>The round trip of a name\<close>

lemma insert_dataset_success:
  assumes "plain_text dataset_name"
    and "insert_dataset dataset_name engine = (Inr (), engine')"
  shows "datasets_named dataset_name engine = []"
    and "engine' = engine\<lparr>datasets := datasets engine @
            [\<lparr>d_id = next_id (map d_id (datasets engine)), d_dataset_name = dataset_name\<rparr>]\<rparr>"
  using assms
  by (auto simp: insert_dataset_def check_dataset_name_exists_plain Let_def
           split: if_splits)

lemma plain_study1: "plain_text '' study1''" "plain_text ''STUDY1''" "plain_text ''STUDY2''"
  by (simp_all add: plain_text_def plain_characters_def)

text \<open>
  C8, as the code has it. After \<open>insert_dataset\<close> succeeds for a plain name, the name
  resolves to an id and that id resolves back to the string that was inserted,
  unchanged.
\<close>

theorem dataset_name_round_trip_verbatim:
  assumes "plain_text dataset_name"
    and "insert_dataset dataset_name engine = (Inr (), engine')"
  shows "\<exists>i. get_dataset_id dataset_name engine' = Inr i \<and>
             get_dataset_name i engine' = Inr dataset_name"
proof -
  let ?i = "next_id (map d_id (datasets engine))"
  let ?row = "\<lparr>d_id = ?i, d_dataset_name = dataset_name\<rparr>"
  from insert_dataset_success [OF assms]
  have absent: "filter (\<lambda>d. d_dataset_name d = dataset_name) (datasets engine) = []"
    and tbl: "datasets engine' = datasets engine @ [?row]"
    by (simp_all add: datasets_named_def)
  have by_name: "datasets_named dataset_name engine' = [?row]"
    using absent tbl by (simp add: datasets_named_def)
  have "d_id d \<noteq> ?i" if "d \<in> set (datasets engine)" for d
    using that next_id_greater [of "d_id d" "map d_id (datasets engine)"] by force
  then have "filter (\<lambda>d. d_id d = ?i) (datasets engine) = []"
    by (simp add: filter_empty_conv)
  then have by_id: "filter (\<lambda>d. d_id d = ?i) (datasets engine') = [?row]"
    using tbl by simp
  have "get_dataset_id dataset_name engine' = Inr ?i"
    using by_name assms(1) by (simp add: get_dataset_id_plain)
  moreover have "get_dataset_name ?i engine' = Inr dataset_name"
    using by_id by (simp add: get_dataset_name_def)
  ultimately show ?thesis by blast
qed

theorem dataset_name_round_trip_verbatim_witness:
  "plain_text '' study1'' \<and>
   insert_dataset '' study1'' one_dataset_db =
     (Inr (), one_dataset_db\<lparr>datasets := datasets one_dataset_db @
        [\<lparr>d_id = 8, d_dataset_name = '' study1''\<rparr>]\<rparr>) \<and>
   (\<exists>i. get_dataset_id '' study1'' (one_dataset_db\<lparr>datasets := datasets one_dataset_db @
        [\<lparr>d_id = 8, d_dataset_name = '' study1''\<rparr>]\<rparr>) = Inr i \<and>
      get_dataset_name i (one_dataset_db\<lparr>datasets := datasets one_dataset_db @
        [\<lparr>d_id = 8, d_dataset_name = '' study1''\<rparr>]\<rparr>) = Inr '' study1'')"
proof -
  have run: "insert_dataset '' study1'' one_dataset_db =
     (Inr (), one_dataset_db\<lparr>datasets := datasets one_dataset_db @
        [\<lparr>d_id = 8, d_dataset_name = '' study1''\<rparr>]\<rparr>)"
    by (simp add: insert_dataset_def check_dataset_name_exists_plain plain_study1
        datasets_named_def one_dataset_db_def empty_db_def next_id_def)
  show ?thesis
    using run plain_study1(1) dataset_name_round_trip_verbatim [OF plain_study1(1) run] by simp
qed

text \<open>
  The round trip does not normalise: the name \<open>'' study1''\<close> comes back as it went
  in, not as \<open>''STUDY1''\<close>.
\<close>

theorem dataset_name_round_trip_not_normalised:
  "\<not> (\<forall>dataset_name engine engine'.
        insert_dataset dataset_name engine = (Inr (), engine') \<longrightarrow>
        (\<exists>i. get_dataset_id dataset_name engine' = Inr i \<and>
             get_dataset_name i engine' =
               Inr (spec_normalised_upper_trimmed dataset_name)))"
proof
  assume claim: "\<forall>dataset_name engine engine'.
        insert_dataset dataset_name engine = (Inr (), engine') \<longrightarrow>
        (\<exists>i. get_dataset_id dataset_name engine' = Inr i \<and>
             get_dataset_name i engine' =
               Inr (spec_normalised_upper_trimmed dataset_name))"
  let ?db = "empty_db\<lparr>datasets := [\<lparr>d_id = 1, d_dataset_name = '' study1''\<rparr>]\<rparr>"
  have run: "insert_dataset '' study1'' empty_db = (Inr (), ?db)"
    by (simp add: insert_dataset_def check_dataset_name_exists_plain plain_study1
        datasets_named_def empty_db_def next_id_def)
  have id: "get_dataset_id '' study1'' ?db = Inr 1"
    by (simp add: get_dataset_id_plain plain_study1 datasets_named_def empty_db_def)
  have name: "get_dataset_name 1 ?db = Inr '' study1''"
    by (simp add: get_dataset_name_def empty_db_def)
  have norm: "spec_normalised_upper_trimmed '' study1'' = ''STUDY1''"
    by (simp add: spec_normalised_upper_trimmed_def spec_upper_char_def spec_is_space_def)
  from claim run obtain i where
    "get_dataset_id '' study1'' ?db = Inr i"
    "get_dataset_name i ?db = Inr (spec_normalised_upper_trimmed '' study1'')"
    by blast
  with id name norm show False by simp
qed

section \<open>Properties of subjects.py\<close>

lemma for_each_Inr_iff:
  "for_each f xs = Inr ys \<longleftrightarrow> list_all2 (\<lambda>x y. f x = Inr y) xs ys"
proof
  show "for_each f xs = Inr ys \<Longrightarrow> list_all2 (\<lambda>x y. f x = Inr y) xs ys"
    by (induction xs arbitrary: ys) (auto split: sum.splits)
  show "list_all2 (\<lambda>x y. f x = Inr y) xs ys \<Longrightarrow> for_each f xs = Inr ys"
    by (induction rule: list_all2_induct) auto
qed

lemma for_each_fails:
  "x \<in> set xs \<Longrightarrow> f x = Inl e \<Longrightarrow> \<exists>e'. for_each f xs = Inl e'"
  by (induction xs) (auto split: sum.splits)

lemma for_each_length:
  "for_each f xs = Inr ys \<Longrightarrow> length ys = length xs"
  by (simp add: for_each_Inr_iff list_all2_lengthD)

subsection \<open>Plain arguments\<close>

lemma select_subjects_plain:
  "plain_text sub \<Longrightarrow> plain_text name \<Longrightarrow>
     select_subjects sub name engine = Inr (subjects_named sub name engine)"
  by (auto simp: select_subjects_def sql_where_plain subjects_named_def joined_subject_cells_def
      subject_cells_def dataset_cells_def text_or_null_def
      intro!: filter_cong split: option.splits)

lemma check_subject_exists_plain:
  "plain_text sub \<Longrightarrow> plain_text name \<Longrightarrow>
     check_subject_exists sub name engine =
       (case check_dataset_name_exists name engine of
          Inl e \<Rightarrow> Inl e
        | Inr found \<Rightarrow>
            if found \<noteq> True then Inl (SubjectDatabaseException DatasetNameDoesNotExist)
            else
              (let result = length (subjects_named sub name engine) in
               if result = 0 then Inr False
               else if result = 1 then Inr True
               else Inl (SubjectDatabaseException MoreThanOneSubjectIdentifier)))"
  by (simp add: check_subject_exists_def select_subjects_plain split: sum.splits)

lemma get_subject_id_plain:
  "plain_text sub \<Longrightarrow> plain_text name \<Longrightarrow>
     get_subject_id sub name engine =
       (case check_dataset_name_exists name engine of
          Inl e \<Rightarrow> Inl e
        | Inr found \<Rightarrow>
            if found \<noteq> True then Inl (SubjectDatabaseException DatasetNameDoesNotExist)
            else
              (let result = map (\<lambda>(s, d). s_id s) (subjects_named sub name engine) in
               if length result = 0
               then Inl (SubjectDatabaseException NoRowsMatchingSubjectIdentifier)
               else if length result > 1
               then Inl (SubjectDatabaseException TooManyRowsMatchingSubjectIdentifier)
               else Inr (hd result)))"
  by (simp add: get_subject_id_def select_subjects_plain split: sum.splits)

lemma check_subject_deid_exists_plain:
  "plain_text p \<Longrightarrow>
     check_subject_deid_exists p engine =
       (let result = length (filter (\<lambda>s. s_subject_identifier_deid s = p) (subjects engine)) in
        if result = 0 then Inr False
        else if result = 1 then Inr True
        else Inl (SubjectDatabaseException MoreThanOneSubjectIdentifierDeid))"
  by (simp add: check_subject_deid_exists_def select_subjects_by_deid_def sql_where_plain
      subject_cells_def text_or_null_def)

text \<open>
  For a plain dataset name that no row of the datasets table has,
  \<open>check_subject_exists\<close> and \<open>get_subject_id\<close> raise the SubjectDatabaseException of the
  missing dataset whatever the subject; and unless exactly one row has the name,
  their outcome does not depend on the subjects table.
\<close>

lemma plain_subject_lookups_need_the_dataset:
  assumes "plain_text dataset_name"
  shows "datasets_named dataset_name engine = [] \<Longrightarrow>
           check_subject_exists subject_identifier dataset_name engine =
             Inl (SubjectDatabaseException DatasetNameDoesNotExist) \<and>
           get_subject_id subject_identifier dataset_name engine =
             Inl (SubjectDatabaseException DatasetNameDoesNotExist)"
    and "length (datasets_named dataset_name engine) \<noteq> 1 \<Longrightarrow>
           check_subject_exists subject_identifier dataset_name (engine\<lparr>subjects := table\<rparr>) =
             check_subject_exists subject_identifier dataset_name engine \<and>
           get_subject_id subject_identifier dataset_name (engine\<lparr>subjects := table\<rparr>) =
             get_subject_id subject_identifier dataset_name engine"
  using assms
  by (auto simp: check_subject_exists_def get_subject_id_def check_dataset_name_exists_plain
      datasets_named_def Let_def)

text \<open>
  C10, on the code. No dataset of \<open>study_db\<close> has the name \<open>x' OR 'a'='a\<close>, and no
  subject has the identifier \<open>S999\<close>. The dataset check of the two lookups passes (as
  in \<open>check_dataset_name_exists\<close>), and their own query has the condition
  \<^verbatim>\<open>subject_identifier = 'S999' AND dataset_name = 'x' OR 'a'='a'\<close>, which every row
  satisfies: \<open>check_subject_exists\<close> returns True and \<open>get_subject_id\<close> returns the id
  of the one subject of the store.
\<close>

theorem subject_lookups_read_pasted_sql:
  "datasets_named ''x' OR 'a'='a'' study_db = [] \<and>
   filter (\<lambda>s. s_subject_identifier s = ''S999'') (subjects study_db) = [] \<and>
   check_subject_exists ''S999'' ''x' OR 'a'='a'' study_db = Inr True \<and>
   get_subject_id ''S999'' ''x' OR 'a'='a'' study_db = Inr 1"
  by (simp add: datasets_named_def check_subject_exists_def get_subject_id_def
      check_dataset_name_exists_def select_datasets_by_name_def select_subjects_def
      subjects_joined_def left_join_def sql_where_def plain_text_def plain_characters_def
      study_db_def reference_reads_def quoted_def scan_start_def name_characters_def
      word_token_def comparison_test_def operand_value_def Let_def)

subsection \<open>Pseudonyms\<close>

lemma random_choices_length:
  "random_choices population k rng = Some (s, rng') \<Longrightarrow> length s = k"
  by (auto simp: random_choices_def split: if_splits)

lemma generate_subject_identifier_deid_returns:
  "generate_subject_identifier_deid engine rng = Some (Inr p, rng') \<Longrightarrow>
     length p = 10 \<and> check_subject_deid_exists p engine = Inr False"
proof (induction engine rng rule: generate_subject_identifier_deid.induct)
  case (1 engine rng)
  from "1.prems" obtain cand rest where
    draw: "random_choices ascii_letters 10 rng = Some (cand, rest)"
    by (subst (asm) generate_subject_identifier_deid.simps) (auto split: option.splits)
  from "1.prems" draw obtain found where
    chk: "check_subject_deid_exists cand engine = Inr found"
    by (subst (asm) generate_subject_identifier_deid.simps) (auto split: sum.splits)
  show ?case
  proof (cases found)
    case True
    with "1.prems" draw chk
    have "generate_subject_identifier_deid engine rest = Some (Inr p, rng')"
      by (subst (asm) generate_subject_identifier_deid.simps) simp
    with "1.IH" [OF draw refl chk] True show ?thesis by simp
  next
    case False
    with "1.prems" draw chk have "p = cand"
      by (subst (asm) generate_subject_identifier_deid.simps) simp
    with draw chk False show ?thesis
      by (simp add: random_choices_length)
  qed
qed

lemma generate_unused_deid_returns:
  "generate_unused_deid engine assigned rng = Some (Inr p, rng') \<Longrightarrow>
     length p = 10 \<and> check_subject_deid_exists p engine = Inr False \<and> p \<notin> set assigned"
proof (induction engine assigned rng rule: generate_unused_deid.induct)
  case (1 engine assigned rng)
  from "1.prems" obtain cand rest where
    gen: "generate_subject_identifier_deid engine rng = Some (Inr cand, rest)"
    by (subst (asm) generate_unused_deid.simps) (auto split: option.splits sum.splits)
  show ?case
  proof (cases "cand \<in> set assigned")
    case True
    with "1.prems" gen have "generate_unused_deid engine assigned rest = Some (Inr p, rng')"
      by (subst (asm) generate_unused_deid.simps) simp
    with "1.IH" [OF gen refl refl True] show ?thesis by simp
  next
    case False
    with "1.prems" gen have "p = cand"
      by (subst (asm) generate_unused_deid.simps) simp
    with False generate_subject_identifier_deid_returns [OF gen] show ?thesis by simp
  qed
qed

lemma assign_deids_returns:
  "assign_deids engine rows assigned rng = Some (Inr de_ids) \<Longrightarrow>
     \<exists>fresh. de_ids = assigned @ fresh \<and> length fresh = length rows \<and>
       (distinct assigned \<longrightarrow> distinct de_ids) \<and>
       (\<forall>p \<in> set fresh. length p = 10 \<and> check_subject_deid_exists p engine = Inr False)"
proof (induction rows arbitrary: assigned rng)
  case Nil
  then show ?case by simp
next
  case (Cons row rows)
  from Cons.prems obtain de_id rest where
    gen: "generate_unused_deid engine assigned rng = Some (Inr de_id, rest)"
    and rec: "assign_deids engine rows (assigned @ [de_id]) rest = Some (Inr de_ids)"
    by (auto split: option.splits sum.splits)
  from Cons.IH [OF rec] obtain fresh where
    fresh: "de_ids = (assigned @ [de_id]) @ fresh" "length fresh = length rows"
      "distinct (assigned @ [de_id]) \<longrightarrow> distinct de_ids"
      "\<forall>p \<in> set fresh. length p = 10 \<and> check_subject_deid_exists p engine = Inr False"
    by blast
  from generate_unused_deid_returns [OF gen]
  have new: "length de_id = 10" "check_subject_deid_exists de_id engine = Inr False"
    "de_id \<notin> set assigned"
    by simp_all
  show ?case
  proof (intro exI conjI)
    show "de_ids = assigned @ (de_id # fresh)" using fresh(1) by simp
    show "length (de_id # fresh) = length (row # rows)" using fresh(2) by simp
    show "distinct assigned \<longrightarrow> distinct de_ids" using fresh(3) new(3) by simp
    show "\<forall>p \<in> set (de_id # fresh).
            length p = 10 \<and> check_subject_deid_exists p engine = Inr False"
      using fresh(4) new(1,2) by simp
  qed
qed

lemma new_subject_rows_deids:
  "length de_ids = length rows \<Longrightarrow> length dates = length rows \<Longrightarrow>
     map s_subject_identifier_deid
       (new_subject_rows first_id dataset_id (zip rows (zip de_ids dates))) = de_ids"
proof -
  assume len: "length de_ids = length rows" "length dates = length rows"
  have "map s_subject_identifier_deid (new_subject_rows first_id dataset_id xs) =
          map (\<lambda>(r, de_id, dates). de_id) xs" for xs
    unfolding new_subject_rows_def
    by (induction xs arbitrary: first_id rule: rev_induct)
       (auto simp: enumerate_append_eq split: prod.splits)
  moreover have "map (\<lambda>(r, de_id, dates). de_id) (zip rows (zip de_ids dates)) = de_ids"
    using len
  proof (induction rows arbitrary: de_ids dates)
    case Nil
    then show ?case by simp
  next
    case (Cons r rows)
    then show ?case by (cases de_ids; cases dates) auto
  qed
  ultimately show ?thesis by simp
qed

lemma insert_subjects_success:
  assumes "insert_subjects lib subject_template subjects_df engine rng = Some (Inr (), engine')"
  shows "\<exists>dataset_name dates de_ids dataset_id.
           check_subjects_frame subject_template subjects_df engine = Inr dataset_name \<and>
           parse_subject_dates lib (sf_rows subjects_df) = Inr dates \<and>
           assign_deids engine (sf_rows subjects_df) [] rng = Some (Inr de_ids) \<and>
           get_dataset_id dataset_name engine = Inr dataset_id \<and>
           engine' = engine\<lparr>subjects := subjects engine @
             new_subject_rows (next_id (map s_id (subjects engine))) dataset_id
               (zip (sf_rows subjects_df) (zip de_ids dates))\<rparr>"
  using assms
  by (auto simp: insert_subjects_def Let_def split: sum.splits option.splits)

lemma parse_subject_dates_length:
  "parse_subject_dates lib rows = Inr dates \<Longrightarrow> length dates = length rows"
  by (auto simp: parse_subject_dates_def dest!: for_each_length split: sum.splits if_splits)

subsection \<open>The pseudonyms read off the random source\<close>

lemma letters_are_plain: "c \<in> set ascii_letters \<Longrightarrow> c \<in> set plain_characters"
  by (auto simp: ascii_letters_def plain_characters_def)

lemma random_choices_plain:
  assumes "random_choices ascii_letters k rng = Some (p, rng')"
  shows "plain_text p"
proof -
  have "ascii_letters ! (r mod length ascii_letters) \<in> set ascii_letters" for r
    by (rule nth_mem) (simp add: ascii_letters_def)
  then have "ascii_letters ! (r mod length ascii_letters) \<in> set plain_characters" for r
    by (rule letters_are_plain)
  with assms show ?thesis
    by (auto simp: random_choices_def plain_text_def list_all_iff split: if_splits)
qed

lemma count_of_distinct_key:
  assumes "distinct (map f xs)"
  shows "length (filter (\<lambda>x. f x = k) xs) = (if k \<in> set (map f xs) then 1 else 0)"
  using assms by (induction xs) auto

lemma check_subject_deid_exists_taken:
  assumes "distinct (map s_subject_identifier_deid (subjects engine))" and "plain_text p"
  shows "check_subject_deid_exists p engine = Inr (deid_taken engine p)"
  using assms(2) count_of_distinct_key [OF assms(1), of p]
  by (simp add: check_subject_deid_exists_plain deid_taken_def)

lemma dropWhile_weaker:
  "(\<And>x. P x \<Longrightarrow> Q x) \<Longrightarrow> dropWhile Q (dropWhile P xs) = dropWhile Q xs"
  by (induction xs) auto

lemma generate_subject_identifier_deid_scans:
  assumes unique: "distinct (map s_subject_identifier_deid (subjects engine))"
  shows "case dropWhile (deid_taken engine) (candidates rng) of
           [] \<Rightarrow> generate_subject_identifier_deid engine rng = None
         | p # pool \<Rightarrow>
             \<exists>rng'. generate_subject_identifier_deid engine rng = Some (Inr p, rng') \<and>
                    candidates rng' = pool"
  using assms
proof (induction engine rng rule: generate_subject_identifier_deid.induct)
  case (1 engine rng)
  show ?case
  proof (cases "random_choices ascii_letters 10 rng")
    case None
    then have "candidates rng = []"
      by (subst candidates.simps) simp
    moreover from None have "generate_subject_identifier_deid engine rng = None"
      by (subst generate_subject_identifier_deid.simps) simp
    ultimately show ?thesis by simp
  next
    case (Some drawn)
    obtain cand rest where drawn: "drawn = (cand, rest)" by (cases drawn)
    with Some have draw: "random_choices ascii_letters 10 rng = Some (cand, rest)" by simp
    have pool: "candidates rng = cand # candidates rest"
      using draw by (subst candidates.simps) simp
    have chk: "check_subject_deid_exists cand engine = Inr (deid_taken engine cand)"
      using "1.prems" random_choices_plain [OF draw]
      by (rule check_subject_deid_exists_taken)
    show ?thesis
    proof (cases "deid_taken engine cand")
      case True
      with draw chk have same: "generate_subject_identifier_deid engine rng =
          generate_subject_identifier_deid engine rest"
        by (subst generate_subject_identifier_deid.simps) simp
      have skip: "dropWhile (deid_taken engine) (candidates rng) =
          dropWhile (deid_taken engine) (candidates rest)"
        using pool True by simp
      have "case dropWhile (deid_taken engine) (candidates rest) of
              [] \<Rightarrow> generate_subject_identifier_deid engine rest = None
            | p # pool \<Rightarrow>
                \<exists>rng'. generate_subject_identifier_deid engine rest = Some (Inr p, rng') \<and>
                       candidates rng' = pool"
        by (rule "1.IH" [OF draw refl chk _ "1.prems"]) (simp add: True)
      then show ?thesis unfolding skip same .
    next
      case False
      with draw chk have "generate_subject_identifier_deid engine rng = Some (Inr cand, rest)"
        by (subst generate_subject_identifier_deid.simps) simp
      with False pool show ?thesis by simp
    qed
  qed
qed

lemma generate_unused_deid_scans:
  assumes unique: "distinct (map s_subject_identifier_deid (subjects engine))"
  shows "case dropWhile (\<lambda>p. deid_taken engine p \<or> p \<in> set assigned) (candidates rng) of
           [] \<Rightarrow> generate_unused_deid engine assigned rng = None
         | p # pool \<Rightarrow>
             \<exists>rng'. generate_unused_deid engine assigned rng = Some (Inr p, rng') \<and>
                    candidates rng' = pool"
  using assms
proof (induction engine assigned rng rule: generate_unused_deid.induct)
  case (1 engine assigned rng)
  let ?taken = "deid_taken engine"
  let ?used = "\<lambda>p. deid_taken engine p \<or> p \<in> set assigned"
  have skip: "dropWhile ?used (dropWhile ?taken (candidates rng)) =
              dropWhile ?used (candidates rng)"
    by (rule dropWhile_weaker) simp
  show ?case
  proof (cases "dropWhile ?taken (candidates rng)")
    case Nil
    with generate_subject_identifier_deid_scans [OF "1.prems", where rng = rng]
    have "generate_subject_identifier_deid engine rng = None" by simp
    then have "generate_unused_deid engine assigned rng = None"
      by (subst generate_unused_deid.simps) simp
    with skip Nil show ?thesis by simp
  next
    case (Cons p pool)
    with generate_subject_identifier_deid_scans [OF "1.prems", where rng = rng] obtain rng' where
      gen: "generate_subject_identifier_deid engine rng = Some (Inr p, rng')"
      and rest: "candidates rng' = pool"
      by auto
    show ?thesis
    proof (cases "p \<in> set assigned")
      case True
      with gen have same: "generate_unused_deid engine assigned rng =
          generate_unused_deid engine assigned rng'"
        by (subst generate_unused_deid.simps) simp
      have "dropWhile ?used (candidates rng) = dropWhile ?used (p # pool)"
        using skip Cons by simp
      with True rest have pool: "dropWhile ?used (candidates rng) =
          dropWhile ?used (candidates rng')"
        by simp
      show ?thesis
        unfolding pool same by (rule "1.IH" [OF gen refl refl True "1.prems"])
    next
      case False
      with gen have "generate_unused_deid engine assigned rng = Some (Inr p, rng')"
        by (subst generate_unused_deid.simps) simp
      moreover have "\<not> ?taken p"
        using Cons by (metis dropWhile_eq_Cons_conv)
      then have "dropWhile ?used (candidates rng) = p # pool"
        using skip Cons False by simp
      ultimately show ?thesis using rest by simp
    qed
  qed
qed

lemma pick_pseudonyms_scans:
  "pick_pseudonyms taken (Suc n) assigned pool =
     (case dropWhile (\<lambda>p. taken p \<or> p \<in> set assigned) pool of
        [] \<Rightarrow> None
      | p # pool' \<Rightarrow> pick_pseudonyms taken n (assigned @ [p]) pool')"
  by (induction pool) auto

lemma assign_deids_picks:
  assumes unique: "distinct (map s_subject_identifier_deid (subjects engine))"
  shows "assign_deids engine rows assigned rng =
           map_option Inr
             (pick_pseudonyms (deid_taken engine) (length rows) assigned (candidates rng))"
proof (induction rows arbitrary: assigned rng)
  case Nil
  show ?case by simp
next
  case (Cons row rows)
  let ?used = "\<lambda>p. deid_taken engine p \<or> p \<in> set assigned"
  show ?case
  proof (cases "dropWhile ?used (candidates rng)")
    case Nil
    with generate_unused_deid_scans [OF unique, where assigned = assigned and rng = rng]
    have "generate_unused_deid engine assigned rng = None" by simp
    with Nil show ?thesis
      by (simp add: pick_pseudonyms_scans del: dropWhile_eq_Nil_conv)
  next
    case (Cons p pool)
    with generate_unused_deid_scans [OF unique, where assigned = assigned and rng = rng]
    obtain rng' where
      "generate_unused_deid engine assigned rng = Some (Inr p, rng')" "candidates rng' = pool"
      by auto
    with Cons Cons.IH [of "assigned @ [p]" rng'] show ?thesis
      by (simp add: pick_pseudonyms_scans)
  qed
qed

lemma pick_pseudonyms_returns:
  "pick_pseudonyms taken n assigned pool = Some de_ids \<Longrightarrow>
     \<exists>fresh. de_ids = assigned @ fresh \<and> length fresh = n \<and>
       (distinct assigned \<longrightarrow> distinct de_ids) \<and>
       (\<forall>p \<in> set fresh. \<not> taken p \<and> p \<in> set pool)"
proof (induction taken n assigned pool rule: pick_pseudonyms.induct)
  case (1 taken assigned pool)
  then show ?case by simp
next
  case (2 taken n assigned)
  then show ?case by simp
next
  case (3 taken n assigned p pool)
  show ?case
  proof (cases "taken p \<or> p \<in> set assigned")
    case True
    with "3.prems" have "pick_pseudonyms taken (Suc n) assigned pool = Some de_ids" by simp
    from "3.IH"(1) [OF True this] show ?thesis by auto
  next
    case False
    with "3.prems" have "pick_pseudonyms taken n (assigned @ [p]) pool = Some de_ids" by simp
    from "3.IH"(2) [OF False this] obtain fresh where
      "de_ids = (assigned @ [p]) @ fresh" "length fresh = n"
      "distinct (assigned @ [p]) \<longrightarrow> distinct de_ids"
      "\<forall>q \<in> set fresh. \<not> taken q \<and> q \<in> set pool"
      by blast
    with False show ?thesis
      by (intro exI [of _ "p # fresh"]) auto
  qed
qed

text \<open>
  C9. In a store whose pseudonyms are distinct, \<open>generate_subject_identifier_deid\<close>
  returns the first candidate of the random source that no subject of the store has,
  and does not return only when the source holds none; what it returns has ten
  characters, and \<open>check_subject_deid_exists\<close> returns False for it on the store of
  the call. For a frame that passes the checks of \<open>insert_subjects\<close>, the call gives
  the rows, in order, the candidates that are neither in the store nor given to an
  earlier row, drawing again on either collision, and appends one subject for each
  row; it does not return only when the source holds too few such candidates. The
  pseudonyms of the appended rows are pairwise distinct.
\<close>

theorem pseudonyms_verified_unique:
  assumes unique: "distinct (map s_subject_identifier_deid (subjects engine))"
  shows "(case dropWhile (deid_taken engine) (candidates rng) of
            [] \<Rightarrow> generate_subject_identifier_deid engine rng = None
          | p # pool \<Rightarrow>
              \<exists>rng'. generate_subject_identifier_deid engine rng = Some (Inr p, rng') \<and>
                     candidates rng' = pool) \<and>
         (generate_subject_identifier_deid engine rng = Some (Inr p, rng') \<longrightarrow>
            length p = 10 \<and> check_subject_deid_exists p engine = Inr False) \<and>
         (check_subjects_frame subject_template subjects_df engine = Inr dataset_name \<and>
          parse_subject_dates lib (sf_rows subjects_df) = Inr dates \<and>
          get_dataset_id dataset_name engine = Inr dataset_id \<longrightarrow>
            insert_subjects lib subject_template subjects_df engine rng =
              (case pick_pseudonyms (deid_taken engine) (length (sf_rows subjects_df)) []
                      (candidates rng) of
                 None \<Rightarrow> None
               | Some de_ids \<Rightarrow>
                   Some (Inr (),
                         engine\<lparr>subjects := subjects engine @
                           new_subject_rows (next_id (map s_id (subjects engine))) dataset_id
                             (zip (sf_rows subjects_df) (zip de_ids dates))\<rparr>))) \<and>
         (insert_subjects lib subject_template subjects_df engine rng = Some (Inr (), engine') \<longrightarrow>
            (\<exists>added. subjects engine' = subjects engine @ added \<and>
               length added = length (sf_rows subjects_df) \<and>
               distinct (map s_subject_identifier_deid added) \<and>
               (\<forall>s \<in> set added.
                  length (s_subject_identifier_deid s) = 10 \<and>
                  \<not> deid_taken engine (s_subject_identifier_deid s) \<and>
                  check_subject_deid_exists (s_subject_identifier_deid s) engine = Inr False)))"
proof (intro conjI impI)
  show "case dropWhile (deid_taken engine) (candidates rng) of
            [] \<Rightarrow> generate_subject_identifier_deid engine rng = None
          | p # pool \<Rightarrow>
              \<exists>rng'. generate_subject_identifier_deid engine rng = Some (Inr p, rng') \<and>
                     candidates rng' = pool"
    by (rule generate_subject_identifier_deid_scans [OF unique])
next
  assume "generate_subject_identifier_deid engine rng = Some (Inr p, rng')"
  then show "length p = 10" "check_subject_deid_exists p engine = Inr False"
    using generate_subject_identifier_deid_returns by blast+
next
  assume "check_subjects_frame subject_template subjects_df engine = Inr dataset_name \<and>
          parse_subject_dates lib (sf_rows subjects_df) = Inr dates \<and>
          get_dataset_id dataset_name engine = Inr dataset_id"
  then show "insert_subjects lib subject_template subjects_df engine rng =
              (case pick_pseudonyms (deid_taken engine) (length (sf_rows subjects_df)) []
                      (candidates rng) of
                 None \<Rightarrow> None
               | Some de_ids \<Rightarrow>
                   Some (Inr (),
                         engine\<lparr>subjects := subjects engine @
                           new_subject_rows (next_id (map s_id (subjects engine))) dataset_id
                             (zip (sf_rows subjects_df) (zip de_ids dates))\<rparr>))"
    by (simp add: insert_subjects_def assign_deids_picks [OF unique] split: option.splits)
next
  assume run: "insert_subjects lib subject_template subjects_df engine rng = Some (Inr (), engine')"
  let ?rows = "sf_rows subjects_df"
  from insert_subjects_success [OF run] obtain dates de_ids dataset_id where
    dates: "parse_subject_dates lib ?rows = Inr dates"
    and ids: "assign_deids engine ?rows [] rng = Some (Inr de_ids)"
    and out: "engine' = engine\<lparr>subjects := subjects engine @
             new_subject_rows (next_id (map s_id (subjects engine))) dataset_id
               (zip ?rows (zip de_ids dates))\<rparr>"
    by blast
  let ?added = "new_subject_rows (next_id (map s_id (subjects engine))) dataset_id
               (zip ?rows (zip de_ids dates))"
  from assign_deids_returns [OF ids]
  have len: "length de_ids = length ?rows" and dist: "distinct de_ids"
    and each: "\<forall>p \<in> set de_ids. length p = 10 \<and> check_subject_deid_exists p engine = Inr False"
    by auto
  from ids have "pick_pseudonyms (deid_taken engine) (length ?rows) [] (candidates rng) =
      Some de_ids"
    by (auto simp: assign_deids_picks [OF unique])
  from pick_pseudonyms_returns [OF this]
  have free: "\<forall>p \<in> set de_ids. \<not> deid_taken engine p" by auto
  have len': "length dates = length ?rows"
    by (rule parse_subject_dates_length [OF dates])
  have deids: "map s_subject_identifier_deid ?added = de_ids"
    by (rule new_subject_rows_deids [OF len len'])
  have "length ?added = length ?rows"
    using len len' by (simp add: new_subject_rows_def)
  moreover have "\<forall>s \<in> set ?added.
            length (s_subject_identifier_deid s) = 10 \<and>
            \<not> deid_taken engine (s_subject_identifier_deid s) \<and>
            check_subject_deid_exists (s_subject_identifier_deid s) engine = Inr False"
  proof
    fix s assume "s \<in> set ?added"
    then have "s_subject_identifier_deid s \<in> set (map s_subject_identifier_deid ?added)"
      by simp
    with deids each free show "length (s_subject_identifier_deid s) = 10 \<and>
            \<not> deid_taken engine (s_subject_identifier_deid s) \<and>
            check_subject_deid_exists (s_subject_identifier_deid s) engine = Inr False"
      by simp
  qed
  ultimately show "\<exists>added. subjects engine' = subjects engine @ added \<and>
         length added = length (sf_rows subjects_df) \<and>
         distinct (map s_subject_identifier_deid added) \<and>
         (\<forall>s \<in> set added.
            length (s_subject_identifier_deid s) = 10 \<and>
            \<not> deid_taken engine (s_subject_identifier_deid s) \<and>
            check_subject_deid_exists (s_subject_identifier_deid s) engine = Inr False)"
    using out deids dist by (intro exI [of _ ?added]) simp
qed

subsection \<open>An example run of insert_subjects\<close>

lemma plain_subjects: "plain_text ''S000''" "plain_text ''S001''" "plain_text ''S002''"
  by (simp_all add: plain_text_def plain_characters_def)

lemma candidates_repeating:
  "candidates repeating_source =
     [''aaaaaaaaaa'', ''cccccccccc'', ''cccccccccc'', ''eeeeeeeeee'']"
  apply (subst candidates.simps, simp add: repeating_source_def random_choices_def ascii_letters_def)
  apply (subst candidates.simps, simp add: random_choices_def ascii_letters_def)
  apply (subst candidates.simps, simp add: random_choices_def ascii_letters_def)
  apply (subst candidates.simps, simp add: random_choices_def ascii_letters_def)
  apply (subst candidates.simps, simp add: random_choices_def)
  done

lemma study_db_pseudonyms:
  "distinct (map s_subject_identifier_deid (subjects study_db))"
  "deid_taken study_db ''aaaaaaaaaa''" "\<not> deid_taken study_db ''cccccccccc''"
  "\<not> deid_taken study_db ''eeeeeeeeee''"
  by (simp_all add: study_db_def deid_taken_def)

lemma pick_repeating:
  "pick_pseudonyms (deid_taken study_db) 2 [] (candidates repeating_source) =
     Some [''cccccccccc'', ''eeeeeeeeee'']"
  by (simp add: candidates_repeating study_db_pseudonyms numeral_2_eq_2)

lemma check_two_subject_frame:
  "check_subjects_frame subject_columns two_subject_frame study_db = Inr ''STUDY1''"
  by (simp add: check_subjects_frame_def two_subject_frame_def columns_differ_def
      subject_columns_def subject_has_blank_def check_dataset_name_exists_plain
      check_subject_exists_plain plain_study1 plain_subjects datasets_named_def
      subjects_named_def subjects_joined_def study_db_def left_join_def)

lemma reference_date_1980: "reference_to_datetime ''1980-05-17'' = Inr 19800517"
  by (simp add: reference_to_datetime_def match_date_def date_pattern_def digits_def
      at_dollar_def days_in_month_def)

lemma parse_two_subject_dates:
  "parse_subject_dates reference_lib (sf_rows two_subject_frame) =
     Inr [(Some 19800517, None), (None, None)]"
  by (simp add: parse_subject_dates_def two_subject_frame_def to_datetime_na_def
      reference_lib_def reference_date_1980 timestamp_less_def)

lemma study_dataset_id: "get_dataset_id ''STUDY1'' study_db = Inr 1"
  by (simp add: get_dataset_id_plain plain_study1 datasets_named_def study_db_def)

theorem pseudonyms_verified_unique_witness:
  "distinct (map s_subject_identifier_deid (subjects study_db)) \<and>
   candidates repeating_source =
     [''aaaaaaaaaa'', ''cccccccccc'', ''cccccccccc'', ''eeeeeeeeee''] \<and>
   (\<exists>rng'. generate_subject_identifier_deid study_db repeating_source =
             Some (Inr ''cccccccccc'', rng') \<and>
           candidates rng' = [''cccccccccc'', ''eeeeeeeeee'']) \<and>
   check_subject_deid_exists ''cccccccccc'' study_db = Inr False \<and>
   check_subjects_frame subject_columns two_subject_frame study_db = Inr ''STUDY1'' \<and>
   parse_subject_dates reference_lib (sf_rows two_subject_frame) =
     Inr [(Some 19800517, None), (None, None)] \<and>
   get_dataset_id ''STUDY1'' study_db = Inr 1 \<and>
   insert_subjects reference_lib subject_columns two_subject_frame study_db repeating_source =
     Some (Inr (), study_db_with_two) \<and>
   map s_subject_identifier_deid (subjects study_db_with_two) =
     [''aaaaaaaaaa'', ''cccccccccc'', ''eeeeeeeeee'']"
proof -
  note facts = pseudonyms_verified_unique [OF study_db_pseudonyms(1),
      of repeating_source "''cccccccccc''" "[]" subject_columns two_subject_frame "''STUDY1''"
        reference_lib "[(Some 19800517, None), (None, None)]" 1 study_db_with_two]
  have scan: "dropWhile (deid_taken study_db) (candidates repeating_source) =
      [''cccccccccc'', ''cccccccccc'', ''eeeeeeeeee'']"
    by (simp add: candidates_repeating study_db_pseudonyms)
  from facts [THEN conjunct1]
  have gen: "\<exists>rng'. generate_subject_identifier_deid study_db repeating_source =
             Some (Inr ''cccccccccc'', rng') \<and>
           candidates rng' = [''cccccccccc'', ''eeeeeeeeee'']"
    by (simp add: scan)
  then obtain rng' where
    "generate_subject_identifier_deid study_db repeating_source = Some (Inr ''cccccccccc'', rng')"
    by blast
  with pseudonyms_verified_unique [OF study_db_pseudonyms(1),
      of repeating_source "''cccccccccc''" rng']
  have free: "check_subject_deid_exists ''cccccccccc'' study_db = Inr False"
    by simp
  have size: "length (sf_rows two_subject_frame) = 2"
    by (simp add: two_subject_frame_def)
  from facts [THEN conjunct2, THEN conjunct2, THEN conjunct1]
  have run:
    "insert_subjects reference_lib subject_columns two_subject_frame study_db repeating_source =
       Some (Inr (), study_db_with_two)"
    by (simp add: check_two_subject_frame parse_two_subject_dates study_dataset_id
        size pick_repeating)
       (simp add: new_subject_rows_def next_id_def study_db_with_two_def two_subject_frame_def
          study_db_def)
  have stored: "map s_subject_identifier_deid (subjects study_db_with_two) =
     [''aaaaaaaaaa'', ''cccccccccc'', ''eeeeeeeeee'']"
    by (simp add: study_db_with_two_def study_db_def)
  show ?thesis
    using study_db_pseudonyms(1) candidates_repeating gen free check_two_subject_frame
      parse_two_subject_dates study_dataset_id run stored
    by simp
qed

section \<open>Properties of the measurement validators\<close>

lemma in_series_text: "in_series (StrLabel x) column = False"
  by (auto simp: in_series_def series_index_def)

lemmas load_measurement_file_unfold =
  load_measurement_file_def columns_differ_def raw_cells_def in_series_text date_fields_def
  time_fields_def validated_row_def example_template_def heart_rate_row_def

text \<open>
  C6, on the code. The file whose only row has the dataset name \<open>MY STUDY\<close> passes
  \<open>load_measurement_file\<close>: the test \<open>' ' in meas['dataset_name']\<close> looks for the label
  \<open>' '\<close> in the index of the column, never in its values.
\<close>

theorem whitespace_dataset_name_is_accepted:
  "load_measurement_file example_template spaced_name_file =
     Inr \<lparr>df = [\<lparr>b_dataset_name = ''MY STUDY'', b_subject_identifier = ''S001'',
                   b_variable_name = ''hr'', b_gender = None, b_date_of_birth = None,
                   b_date_of_death = None, b_measurement_date = None,
                   b_measurement_time = None, b_visit_grouping = None,
                   b_value = Some ''72'', b_ethnicity = None\<rparr>],
           formatted = True, added_columns = None\<rparr>"
  by (simp add: load_measurement_file_unfold spaced_name_file_def)

subsection \<open>The date pattern\<close>

lemma match_classes_Cons_iff:
  "match_classes (cls # classes) s = Some rest \<longleftrightarrow>
     (\<exists>c s'. s = c # s' \<and> c \<in> set cls \<and> match_classes classes s' = Some rest)"
  by (cases s) auto

lemma match_date_shape:
  "match_date s \<longleftrightarrow>
     (\<exists>y1 y2 y3 y4 m1 m2 d1 d2.
        (s = [y1, y2, y3, y4, CHR ''-'', m1, m2, CHR ''-'', d1, d2] \<or>
         s = [y1, y2, y3, y4, CHR ''-'', m1, m2, CHR ''-'', d1, d2, CHR 0x0A]) \<and>
        y1 \<in> set ''12'' \<and> y2 \<in> set ''890'' \<and> y3 \<in> set digits \<and> y4 \<in> set digits \<and>
        m1 \<in> set ''01'' \<and> m2 \<in> set digits \<and> d1 \<in> set ''0123'' \<and> d2 \<in> set digits)"
proof -
  have "match_date s \<longleftrightarrow>
          (\<exists>rest. match_classes date_pattern s = Some rest \<and> at_dollar rest)"
    by (simp add: match_date_def split: option.splits)
  also have "\<dots> \<longleftrightarrow>
     (\<exists>y1 y2 y3 y4 m1 m2 d1 d2.
        (s = [y1, y2, y3, y4, CHR ''-'', m1, m2, CHR ''-'', d1, d2] \<or>
         s = [y1, y2, y3, y4, CHR ''-'', m1, m2, CHR ''-'', d1, d2, CHR 0x0A]) \<and>
        y1 \<in> set ''12'' \<and> y2 \<in> set ''890'' \<and> y3 \<in> set digits \<and> y4 \<in> set digits \<and>
        m1 \<in> set ''01'' \<and> m2 \<in> set digits \<and> d1 \<in> set ''0123'' \<and> d2 \<in> set digits)"
    unfolding date_pattern_def match_classes_Cons_iff at_dollar_def
    by (simp only: match_classes.simps) (safe; fastforce)
  finally show ?thesis .
qed

lemma load_measurement_file_rejects_date:
  assumes "r \<in> set (f_rows meas)" and "field \<in> set date_fields"
    and "field r = Some s" and "\<not> match_date s"
  shows "\<exists>e. load_measurement_file template meas = Inl e"
proof -
  have "\<exists>field \<in> set date_fields. \<exists>r \<in> set (f_rows meas).
          case field r of None \<Rightarrow> False | Some s \<Rightarrow> match_date s = False"
    using assms by (intro bexI [of _ field] bexI [of _ r]) simp_all
  then show ?thesis
    unfolding load_measurement_file_def Let_def
    by (simp split: sum.splits)
qed

lemma match_date_examples:
  "match_date ''2023-13-01''" "match_date ''2023-02-29''" "match_date ''1066-10-14''"
  "\<not> match_date ''3023-01-01''"
  by (simp_all add: match_date_def date_pattern_def digits_def at_dollar_def)

text \<open>
  C4, as the code has it. The date check accepts a text exactly when it has the shape
  of the pattern: ten characters \<open>dddd-dd-dd\<close>, the first of \<open>1 2\<close>, the second of
  \<open>8 9 0\<close>, the first of the month of \<open>0 1\<close>, the first of the day of \<open>0 1 2 3\<close>, the
  others digits, and possibly a final newline. A value of a variable of data type
  \<open>date\<close> is accepted exactly then; \<open>2023-13-01\<close> and \<open>2023-02-29\<close> are both accepted.
  \<open>load_measurement_file\<close> refuses a file with a date field that is not missing and
  does not have this shape.
\<close>

theorem date_validation_is_pattern_level:
  "(match_date s \<longleftrightarrow>
     (\<exists>y1 y2 y3 y4 m1 m2 d1 d2.
        (s = [y1, y2, y3, y4, CHR ''-'', m1, m2, CHR ''-'', d1, d2] \<or>
         s = [y1, y2, y3, y4, CHR ''-'', m1, m2, CHR ''-'', d1, d2, CHR 0x0A]) \<and>
        y1 \<in> set ''12'' \<and> y2 \<in> set ''890'' \<and> y3 \<in> set digits \<and> y4 \<in> set digits \<and>
        m1 \<in> set ''01'' \<and> m2 \<in> set digits \<and> d1 \<in> set ''0123'' \<and> d2 \<in> set digits)) \<and>
   validate_data_type lib ''date'' s =
     (if match_date s then Inr () else Inl (MeasurementFileException CannotConvertToDate)) \<and>
   validate_data_type lib ''date'' ''2023-13-01'' = Inr () \<and>
   validate_data_type lib ''date'' ''2023-02-29'' = Inr () \<and>
   (r \<in> set (f_rows meas) \<and> field \<in> set date_fields \<and> field r = Some s \<and> \<not> match_date s \<longrightarrow>
      (\<exists>e. load_measurement_file template meas = Inl e))"
proof (intro conjI impI)
  show "match_date s \<longleftrightarrow>
     (\<exists>y1 y2 y3 y4 m1 m2 d1 d2.
        (s = [y1, y2, y3, y4, CHR ''-'', m1, m2, CHR ''-'', d1, d2] \<or>
         s = [y1, y2, y3, y4, CHR ''-'', m1, m2, CHR ''-'', d1, d2, CHR 0x0A]) \<and>
        y1 \<in> set ''12'' \<and> y2 \<in> set ''890'' \<and> y3 \<in> set digits \<and> y4 \<in> set digits \<and>
        m1 \<in> set ''01'' \<and> m2 \<in> set digits \<and> d1 \<in> set ''0123'' \<and> d2 \<in> set digits)"
    by (rule match_date_shape)
  show "validate_data_type lib ''date'' s =
     (if match_date s then Inr () else Inl (MeasurementFileException CannotConvertToDate))"
    by (simp add: validate_data_type_def)
  show "validate_data_type lib ''date'' ''2023-13-01'' = Inr ()"
    by (simp add: validate_data_type_def match_date_examples)
  show "validate_data_type lib ''date'' ''2023-02-29'' = Inr ()"
    by (simp add: validate_data_type_def match_date_examples)
next
  assume "r \<in> set (f_rows meas) \<and> field \<in> set date_fields \<and> field r = Some s \<and> \<not> match_date s"
  then show "\<exists>e. load_measurement_file template meas = Inl e"
    using load_measurement_file_rejects_date by blast
qed

theorem date_validation_is_pattern_level_witness:
  "heart_rate_row\<lparr>r_measurement_date := Some ''3023-01-01''\<rparr> \<in> set (f_rows year_3023_file) \<and>
   r_measurement_date \<in> set date_fields \<and>
   \<not> match_date ''3023-01-01'' \<and>
   (\<exists>e. load_measurement_file example_template year_3023_file = Inl e) \<and>
   load_measurement_file example_template year_3023_file =
     Inl (MeasurementFileException DateFieldNotFormatted)"
proof -
  have row: "heart_rate_row\<lparr>r_measurement_date := Some ''3023-01-01''\<rparr> \<in> set (f_rows year_3023_file)"
    by (simp add: year_3023_file_def)
  have field: "r_measurement_date \<in> set date_fields"
    by (simp add: date_fields_def)
  have cell: "r_measurement_date (heart_rate_row\<lparr>r_measurement_date := Some ''3023-01-01''\<rparr>) =
      Some ''3023-01-01''"
    by simp
  have run: "load_measurement_file example_template year_3023_file =
     Inl (MeasurementFileException DateFieldNotFormatted)"
    by (simp add: load_measurement_file_unfold year_3023_file_def match_date_examples)
  show ?thesis
    using row field cell run match_date_examples(4)
      date_validation_is_pattern_level [of "''3023-01-01''" reference_lib
        "heart_rate_row\<lparr>r_measurement_date := Some ''3023-01-01''\<rparr>" year_3023_file
        r_measurement_date example_template]
    by simp
qed

text \<open>
  The month \<open>13\<close> passes the date check of a value, and a file with a date of birth
  in the year 1066 passes \<open>load_measurement_file\<close>.
\<close>

theorem month_13_and_year_1066_pass:
  "(\<forall>lib. validate_data_type lib ''date'' ''2023-13-01'' = Inr ()) \<and>
   load_measurement_file example_template year_1066_file =
     Inr \<lparr>df = [\<lparr>b_dataset_name = ''STUDY1'', b_subject_identifier = ''S001'',
                   b_variable_name = ''hr'', b_gender = None,
                   b_date_of_birth = Some ''1066-10-14'', b_date_of_death = None,
                   b_measurement_date = None, b_measurement_time = None,
                   b_visit_grouping = None, b_value = Some ''72'', b_ethnicity = None\<rparr>],
           formatted = True, added_columns = None\<rparr>"
proof
  show "\<forall>lib. validate_data_type lib ''date'' ''2023-13-01'' = Inr ()"
    by (simp add: validate_data_type_def match_date_examples)
  show "load_measurement_file example_template year_1066_file =
     Inr \<lparr>df = [\<lparr>b_dataset_name = ''STUDY1'', b_subject_identifier = ''S001'',
                   b_variable_name = ''hr'', b_gender = None,
                   b_date_of_birth = Some ''1066-10-14'', b_date_of_death = None,
                   b_measurement_date = None, b_measurement_time = None,
                   b_visit_grouping = None, b_value = Some ''72'', b_ethnicity = None\<rparr>],
           formatted = True, added_columns = None\<rparr>"
    by (simp add: load_measurement_file_unfold year_1066_file_def match_date_examples)
qed

section \<open>Properties of insert_measurements\<close>

subsection \<open>Plain arguments\<close>

lemma select_variables_by_name_plain:
  "plain_text name \<Longrightarrow> select_variables_by_name name engine = Inr (variables_named name engine)"
  by (simp add: select_variables_by_name_def sql_where_plain variables_named_def
      variable_cells_def text_or_null_def)

lemma check_variable_name_exists_plain:
  "plain_text name \<Longrightarrow>
     check_variable_name_exists name engine =
       (let result = length (variables_named name engine) in
        if result = 0 then Inr False
        else if result = 1 then Inr True
        else Inl (VariablesDatabaseException MoreThanOneVariableName))"
  by (simp add: check_variable_name_exists_def select_variables_by_name_plain)

lemma get_variable_id_plain:
  "plain_text name \<Longrightarrow>
     get_variable_id name engine =
       (let result = map v_id (variables_named name engine) in
        if length result = 0 then Inl (VariablesDatabaseException NoRowsMatchingVariableName)
        else if length result > 1
        then Inl (VariablesDatabaseException TooManyRowsMatchingVariableName)
        else Inr (hd result))"
  by (simp add: get_variable_id_def select_variables_by_name_plain)

lemma select_measurements_plain:
  assumes "plain_text subject_identifier" and "plain_text dataset_name"
    and "plain_text variable_name" and "plain_option measurement_date"
    and "plain_option measurement_time" and "plain_option visit_grouping"
  shows "select_measurements subject_identifier dataset_name variable_name
           measurement_date measurement_time visit_grouping engine =
         Inr (filter (measurement_where subject_identifier dataset_name variable_name
                        measurement_date measurement_time visit_grouping)
                (measurements_joined engine))"
proof -
  have plain: "list_all (\<lambda>(column, x). plain_text x)
      (measurement_comparisons subject_identifier dataset_name variable_name
         measurement_date measurement_time visit_grouping)"
    using assms
    by (auto simp: measurement_comparisons_def plain_option_def split: option.splits)
  have same: "list_all (\<lambda>(column, x). map_of (joined_measurement_cells j) column = Some (SqlText x))
      (measurement_comparisons subject_identifier dataset_name variable_name
         measurement_date measurement_time visit_grouping) =
    measurement_where subject_identifier dataset_name variable_name
      measurement_date measurement_time visit_grouping j" for j
  proof -
    obtain m s d v where j: "j = (((m, s), d), v)" by (metis surj_pair)
    show ?thesis
      unfolding j
      by (auto simp: measurement_comparisons_def measurement_where_def
          joined_measurement_cells_def measurement_cells_def subject_cells_def
          dataset_cells_def variable_cells_def text_or_null_def
          split: option.splits)
  qed
  show ?thesis
    by (simp add: select_measurements_def sql_where_plain [OF plain] same)
qed

lemma check_measurement_exists_plain:
  assumes "plain_text subject_identifier" and "plain_text dataset_name"
    and "plain_text variable_name" and "plain_option measurement_date"
    and "plain_option measurement_time" and "plain_option visit_grouping"
    and "re_match lib (''^'' @ dataset_name @ ''_'') variable_name = Inr True"
  shows "check_measurement_exists lib dataset_name subject_identifier variable_name engine
           measurement_date measurement_time visit_grouping =
         (let result = length (filter (measurement_where subject_identifier dataset_name
                                         variable_name measurement_date measurement_time
                                         visit_grouping)
                                 (measurements_joined engine))
          in if result = 0 then Inr False
             else if result = 1 then Inr True
             else Inl (MeasurementFileException MoreThanOneMeasurement))"
  using assms(7) select_measurements_plain [OF assms(1-6)]
  by (simp add: check_measurement_exists_def)

subsection \<open>What a normal return implies\<close>

lemma process_row_outcome:
  "process_row lib engine dataset_name uniq_subs variables_db row =
     (let formatted_var_name = formatted_name (b_dataset_name row) (b_variable_name row);
          variable_details = filter (\<lambda>(v, vo). v_variable_name v = formatted_var_name) variables_db;
          subject_identifier = b_subject_identifier row
      in case variable_details of
           [] \<Rightarrow> Inl IndexError
         | (variable, vo) # _ \<Rightarrow>
      (case filter (\<lambda>(sub, subject_id). si_subject_identifier sub = subject_identifier) uniq_subs of
           [] \<Rightarrow> Inl IndexError
         | (sub, subject_id) # _ \<Rightarrow>
      (case (case b_value row of
               None \<Rightarrow> Inr None
             | Some val \<Rightarrow> validate_value lib variable_details variable val) of
           Inl e \<Rightarrow> Inl e
         | Inr value_deid \<Rightarrow>
      (case (case b_measurement_date row of
               None \<Rightarrow> Inr ()
             | Some measurement_date \<Rightarrow>
                 check_measurement_date lib measurement_date
                   (b_date_of_birth row) (b_date_of_death row)) of
           Inl e \<Rightarrow> Inl e
         | Inr _ \<Rightarrow>
      (case (case b_measurement_time row of
               None \<Rightarrow> Inr ()
             | Some measurement_time \<Rightarrow>
                 if match_time measurement_time = False
                 then Inl (MeasurementFileException MeasurementTimeNotFormatted)
                 else Inr ()) of
           Inl e \<Rightarrow> Inl e
         | Inr _ \<Rightarrow>
      (let visit_grouping =
             (if b_visit_grouping row = None \<and> v_associated_visit variable \<noteq> None
              then v_associated_visit variable
              else b_visit_grouping row)
       in case check_measurement_exists lib dataset_name subject_identifier formatted_var_name
                 engine (b_measurement_date row) (b_measurement_time row) visit_grouping of
            Inl e \<Rightarrow> Inl e
          | Inr found \<Rightarrow>
              Inr \<lparr>c_row = row,
                    c_subject_id = subject_id,
                    c_variable_id = v_id variable,
                    c_value_deid = value_deid,
                    c_visit_grouping = visit_grouping,
                    c_meas_exists = (found = True)\<rparr>))))))"
  by (simp add: process_row_def run_row_def Let_def
           split: list.splits sum.splits prod.splits)

lemma process_row_pass:
  "(\<lambda>row. fst (run_row lib engine dataset_name uniq_subs variables_db row)) =
     process_row lib engine dataset_name uniq_subs variables_db"
  by (rule ext) (simp add: process_row_def)

lemma check_rows_outcome:
  "check_rows lib dataset_name uniq_subs rows engine =
     (case resolve_subject_ids uniq_subs engine of
        Inl e \<Rightarrow> Inl e
      | Inr subject_ids \<Rightarrow>
         (let uniq_vars = drop_duplicates (map (\<lambda>r. (b_dataset_name r, b_variable_name r)) rows)
          in case resolve_variable_ids (map (\<lambda>(d, v). formatted_name d v) uniq_vars) engine of
               Inl e \<Rightarrow> Inl e
             | Inr variable_ids \<Rightarrow>
                 for_each (process_row lib engine dataset_name
                             (zip (map fst uniq_subs) subject_ids)
                             (select_variables_db variable_ids engine))
                   rows))"
  by (simp add: check_rows_def loop_stage_def Let_def process_row_pass split: sum.splits)

lemma load_measurement_file_returns:
  assumes "load_measurement_file template meas = Inr formatted_meas"
  shows "formatted formatted_meas = True"
    and "df formatted_meas = map validated_row (f_rows meas)"
    and "length (remdups (map r_dataset_name (f_rows meas))) = 1"
    and "\<forall>r \<in> set (f_rows meas). r_dataset_name r \<noteq> None"
  using assms
  by (auto simp: load_measurement_file_def Let_def split: sum.splits if_splits)

lemma load_example_file:
  "load_measurement_file example_template heart_rate_file = Inr heart_rate_batch"
  by (simp add: load_measurement_file_unfold heart_rate_file_def heart_rate_batch_def
      heart_rate_meas_row_def)

lemma insert_subjects_keeps_tables:
  assumes "insert_subjects lib subject_template subjects_df engine rng = Some (res, engine')"
  shows "datasets engine' = datasets engine"
    and "metadata_variables engine' = metadata_variables engine"
    and "metadata_variable_options engine' = metadata_variable_options engine"
    and "measurements engine' = measurements engine"
    and "reads engine' = reads engine"
  using assms
  by (auto simp: insert_subjects_def Let_def split: sum.splits option.splits)

lemma insert_new_subjects_keeps_tables:
  assumes "insert_new_subjects lib subject_template rows engine rng = Some (res, engine')"
  shows "datasets engine' = datasets engine"
    and "metadata_variables engine' = metadata_variables engine"
    and "metadata_variable_options engine' = metadata_variable_options engine"
    and "measurements engine' = measurements engine"
    and "reads engine' = reads engine"
  using assms insert_subjects_keeps_tables
  by (auto simp: insert_new_subjects_def Let_def
           split: list.splits sum.splits option.splits if_splits prod.splits)


lemma insert_measurements_returns:
  assumes "insert_measurements lib subject_template formatted_meas engine rng =
             Some (Inr counts, remaining, engine')"
  shows "\<exists>dataset_name uniq_subs engine1 checked.
           insert_new_subjects lib subject_template (df formatted_meas) engine rng =
             Some (Inr (dataset_name, uniq_subs), engine1) \<and>
           check_rows lib dataset_name uniq_subs (df formatted_meas) engine1 = Inr checked \<and>
           counts = \<lparr>new_subs = length (filter (\<lambda>(sub, k). k = False) uniq_subs),
                      old_subs = length (filter (\<lambda>(sub, k). k = True) uniq_subs),
                      new_meas = length (filter (\<lambda>c. c_meas_exists c = False) checked),
                      old_meas = length (filter (\<lambda>c. c_meas_exists c = True) checked)\<rparr> \<and>
           engine' = (if length (filter (\<lambda>c. c_meas_exists c = False) checked) > 0
                      then engine1\<lparr>measurements := measurements engine1 @
                             new_measurement_rows (next_id (map m_id (measurements engine1)))
                               (filter (\<lambda>c. c_meas_exists c = False) checked)\<rparr>
                      else engine1)"
  using assms
  by (auto simp: insert_measurements_def check_rows_def Let_def
           split: if_splits option.splits sum.splits prod.splits)

text \<open>
  A validated frame whose dataset name is plain and has no row in the datasets table:
  \<open>insert_measurements\<close> raises (the exception of \<open>get_dataset_id\<close>; the exception of
  line 201 is built but not raised), and the object and the database are the ones it
  was given.
\<close>

lemma insert_new_subjects_on_missing_dataset:
  assumes "rows = r # rest" and "plain_text (b_dataset_name r)"
    and "datasets_named (b_dataset_name r) engine = []"
  shows "insert_new_subjects lib subject_template rows engine rng =
           Some (Inl (DatasetDatabaseException NoRowsMatchingName), engine)"
  using assms
  by (simp add: insert_new_subjects_def check_dataset_name_exists_plain get_dataset_id_plain)

lemma plain_missing_dataset_is_fatal:
  assumes "load_measurement_file template meas = Inr formatted_meas"
    and "plain_text (b_dataset_name (hd (df formatted_meas)))"
    and "datasets_named (b_dataset_name (hd (df formatted_meas))) engine = []"
  shows "insert_measurements lib subject_template formatted_meas engine rng =
           Some (Inl (DatasetDatabaseException NoRowsMatchingName), formatted_meas, engine)"
proof -
  from load_measurement_file_returns [OF assms(1)]
  have fmt: "formatted formatted_meas = True"
    and rows: "df formatted_meas = map validated_row (f_rows meas)"
    and one: "length (remdups (map r_dataset_name (f_rows meas))) = 1"
    by simp_all
  from one have "f_rows meas \<noteq> []" by auto
  with rows obtain r rest where cons: "df formatted_meas = r # rest"
    by (cases "df formatted_meas") auto
  with assms(2,3) have "plain_text (b_dataset_name r)" "datasets_named (b_dataset_name r) engine = []"
    by simp_all
  from insert_new_subjects_on_missing_dataset [OF cons this]
  show ?thesis using fmt by (simp add: insert_measurements_def)
qed

subsection \<open>A dataset name that is not plain\<close>

lemma load_pasted_sql_file:
  "load_measurement_file example_template pasted_sql_file = Inr pasted_sql_batch"
  by (simp add: load_measurement_file_unfold pasted_sql_file_def pasted_sql_batch_def)

lemmas reads_unfold =
  sql_where_def plain_text_def plain_characters_def reference_reads_def quoted_def
  scan_start_def name_characters_def word_token_def comparison_test_def operand_value_def
  Let_def

lemma pasted_sql_dataset_lookups:
  "reads engine = reference_reads \<Longrightarrow>
     datasets engine = [\<lparr>d_id = 7, d_dataset_name = ''STUDY1''\<rparr>] \<Longrightarrow>
     check_dataset_name_exists ''x' OR 'a'='a'' engine = Inr True \<and>
     get_dataset_id ''x' OR 'a'='a'' engine = Inr 7"
  by (simp add: check_dataset_name_exists_def get_dataset_id_def select_datasets_by_name_def
      reads_unfold)

lemma pasted_sql_subject_lookups:
  "reads engine = reference_reads \<Longrightarrow>
     select_subjects ''S001'' ''x' OR 'a'='a'' engine = Inr (subjects_joined engine)"
  by (simp add: select_subjects_def reads_unfold)

lemma pasted_sql_variable_lookup:
  "reads engine = reference_reads \<Longrightarrow> metadata_variables engine = [] \<Longrightarrow>
     check_variable_name_exists (formatted_name ''x' OR 'a'='a'' ''hr'') engine = Inr False"
  by (simp add: check_variable_name_exists_def select_variables_by_name_def formatted_name_def
      reads_unfold)

lemma one_dataset_db_tables:
  "reads one_dataset_db = reference_reads"
  "datasets one_dataset_db = [\<lparr>d_id = 7, d_dataset_name = ''STUDY1''\<rparr>]"
  "subjects one_dataset_db = []" "metadata_variables one_dataset_db = []"
  "reads one_dataset_db_with_S001 = reference_reads"
  "datasets one_dataset_db_with_S001 = [\<lparr>d_id = 7, d_dataset_name = ''STUDY1''\<rparr>]"
  "metadata_variables one_dataset_db_with_S001 = []"
  by (simp_all add: one_dataset_db_def one_dataset_db_with_S001_def empty_db_def)

lemma pasted_sql_pseudonym:
  "generate_unused_deid one_dataset_db [] [2, 2, 2, 2, 2, 2, 2, 2, 2, 2] =
     Some (Inr ''cccccccccc'', [])"
proof -
  have draw: "random_choices ascii_letters 10 [2, 2, 2, 2, 2, 2, 2, 2, 2, 2] =
      Some (''cccccccccc'', [])"
    by (simp add: random_choices_def ascii_letters_def)
  have free: "check_subject_deid_exists ''cccccccccc'' one_dataset_db = Inr False"
    by (simp add: check_subject_deid_exists_plain plain_text_def plain_characters_def
        one_dataset_db_tables)
  have "generate_subject_identifier_deid one_dataset_db [2, 2, 2, 2, 2, 2, 2, 2, 2, 2] =
      Some (Inr ''cccccccccc'', [])"
    by (subst generate_subject_identifier_deid.simps) (simp add: draw free)
  then show ?thesis
    by (subst generate_unused_deid.simps) simp
qed

lemma pasted_sql_insert_subjects:
  "insert_subjects reference_lib subject_columns
     \<lparr>sf_columns = subject_columns,
       sf_rows = [\<lparr>si_dataset_name = ''x' OR 'a'='a'', si_subject_identifier = ''S001'',
                  si_gender = None, si_date_of_birth = None, si_date_of_death = None,
                  si_ethnicity = None\<rparr>]\<rparr>
     one_dataset_db [2, 2, 2, 2, 2, 2, 2, 2, 2, 2] =
   Some (Inr (), one_dataset_db_with_S001)"
proof -
  have joined: "subjects_joined one_dataset_db = []"
    by (simp add: subjects_joined_def left_join_def one_dataset_db_tables)
  have frame: "check_subjects_frame subject_columns
     \<lparr>sf_columns = subject_columns,
       sf_rows = [\<lparr>si_dataset_name = ''x' OR 'a'='a'', si_subject_identifier = ''S001'',
                  si_gender = None, si_date_of_birth = None, si_date_of_death = None,
                  si_ethnicity = None\<rparr>]\<rparr>
     one_dataset_db = Inr ''x' OR 'a'='a''"
    using pasted_sql_dataset_lookups [OF one_dataset_db_tables(1,2)]
      pasted_sql_subject_lookups [OF one_dataset_db_tables(1)]
    by (simp add: check_subjects_frame_def columns_differ_def subject_has_blank_def
        subject_columns_def check_subject_exists_def joined Let_def)
  have dates: "parse_subject_dates reference_lib
     [\<lparr>si_dataset_name = ''x' OR 'a'='a'', si_subject_identifier = ''S001'',
       si_gender = None, si_date_of_birth = None, si_date_of_death = None,
       si_ethnicity = None\<rparr>] = Inr [(None, None)]"
    by (simp add: parse_subject_dates_def to_datetime_na_def timestamp_less_def)
  show ?thesis
    using pasted_sql_dataset_lookups [OF one_dataset_db_tables(1,2)]
    by (simp add: insert_subjects_def frame dates pasted_sql_pseudonym new_subject_rows_def
        next_id_def one_dataset_db_with_S001_def one_dataset_db_tables Let_def)
qed

text \<open>
  C3, on the code. The file whose dataset name is \<open>x' OR 'a'='a\<close> passes
  \<open>load_measurement_file\<close>, and no dataset of \<open>one_dataset_db\<close> has that name: its only
  dataset is \<open>STUDY1\<close>, and it has no subject. \<open>insert_measurements\<close> does raise, but
  not before it has inserted the subject of the file, as a subject of \<open>STUDY1\<close>: the
  lookups of the dataset pass on the pasted text, and the call raises at the lookup of
  the variable.
\<close>

theorem missing_dataset_gets_a_subject:
  "load_measurement_file example_template pasted_sql_file = Inr pasted_sql_batch \<and>
   datasets_named ''x' OR 'a'='a'' one_dataset_db = [] \<and>
   subjects one_dataset_db = [] \<and>
   insert_measurements reference_lib subject_columns pasted_sql_batch one_dataset_db
       [2, 2, 2, 2, 2, 2, 2, 2, 2, 2] =
     Some (Inl (MeasurementFileException VariableNameDoesNotExist), pasted_sql_batch,
           one_dataset_db_with_S001) \<and>
   subjects one_dataset_db_with_S001 =
     [\<lparr>s_id = 1, s_dataset_id = 7, s_subject_identifier = ''S001'',
       s_subject_identifier_deid = ''cccccccccc'', s_gender = None,
       s_date_of_birth = None, s_date_of_death = None, s_ethnicity = None\<rparr>]"
proof -
  have absent: "datasets_named ''x' OR 'a'='a'' one_dataset_db = []"
    by (simp add: datasets_named_def one_dataset_db_tables)
  have none: "subjects_joined one_dataset_db = []"
    by (simp add: subjects_joined_def left_join_def one_dataset_db_tables)
  have one: "subjects_joined one_dataset_db_with_S001 =
      [(\<lparr>s_id = 1, s_dataset_id = 7, s_subject_identifier = ''S001'',
         s_subject_identifier_deid = ''cccccccccc'', s_gender = None,
         s_date_of_birth = None, s_date_of_death = None, s_ethnicity = None\<rparr>,
        Some \<lparr>d_id = 7, d_dataset_name = ''STUDY1''\<rparr>)]"
    by (simp add: subjects_joined_def left_join_def one_dataset_db_with_S001_def
        one_dataset_db_def empty_db_def)
  have stage: "insert_new_subjects reference_lib subject_columns (df pasted_sql_batch)
      one_dataset_db [2, 2, 2, 2, 2, 2, 2, 2, 2, 2] =
    Some (Inr (''x' OR 'a'='a'',
               [(\<lparr>si_dataset_name = ''x' OR 'a'='a'', si_subject_identifier = ''S001'',
                  si_gender = None, si_date_of_birth = None, si_date_of_death = None,
                  si_ethnicity = None\<rparr>, False)]),
          one_dataset_db_with_S001)"
    using pasted_sql_dataset_lookups [OF one_dataset_db_tables(1,2)]
      pasted_sql_subject_lookups [OF one_dataset_db_tables(1)]
    by (simp add: insert_new_subjects_def pasted_sql_batch_def subject_projection_def
        drop_duplicates_def check_subjects_exist_def check_subject_exists_def none
        pasted_sql_insert_subjects Let_def)
  have ids: "resolve_subject_ids
      [(\<lparr>si_dataset_name = ''x' OR 'a'='a'', si_subject_identifier = ''S001'',
         si_gender = None, si_date_of_birth = None, si_date_of_death = None,
         si_ethnicity = None\<rparr>, False)] one_dataset_db_with_S001 = Inr [1]"
    using pasted_sql_dataset_lookups [OF one_dataset_db_tables(5,6)]
      pasted_sql_subject_lookups [OF one_dataset_db_tables(5)]
    by (simp add: resolve_subject_ids_def check_subject_exists_def get_subject_id_def one
        Let_def)
  have loop: "loop_stage reference_lib ''x' OR 'a'='a''
      [(\<lparr>si_dataset_name = ''x' OR 'a'='a'', si_subject_identifier = ''S001'',
         si_gender = None, si_date_of_birth = None, si_date_of_death = None,
         si_ethnicity = None\<rparr>, False)] (df pasted_sql_batch) one_dataset_db_with_S001 =
    (Inl (MeasurementFileException VariableNameDoesNotExist), None)"
    using pasted_sql_variable_lookup [OF one_dataset_db_tables(5,7)]
    by (simp add: loop_stage_def ids pasted_sql_batch_def drop_duplicates_def
        resolve_variable_ids_def Let_def)
  have run: "insert_measurements reference_lib subject_columns pasted_sql_batch one_dataset_db
       [2, 2, 2, 2, 2, 2, 2, 2, 2, 2] =
     Some (Inl (MeasurementFileException VariableNameDoesNotExist), pasted_sql_batch,
           one_dataset_db_with_S001)"
    using stage loop
    by (simp add: insert_measurements_def write_frame_def)
       (simp add: pasted_sql_batch_def)
  show ?thesis
    using load_pasted_sql_file absent run
    by (simp add: one_dataset_db_tables one_dataset_db_with_S001_def)
qed

subsection \<open>The date of a measurement\<close>



lemma for_each_all:
  "(\<And>x. x \<in> set xs \<Longrightarrow> f x = Inr (g x)) \<Longrightarrow> for_each f xs = Inr (map g xs)"
  by (induction xs) auto





subsection \<open>Example runs: the date of a measurement\<close>

lemmas run_unfold =
  insert_measurements_def insert_new_subjects_def loop_stage_def run_row_def write_frame_def
  check_measurement_exists_def select_measurements_plain measurement_where_def
  measurements_joined_def left_join_def select_variables_db_def resolve_variable_ids_def
  resolve_subject_ids_def check_subjects_exist_def subject_projection_def drop_duplicates_def
  check_subject_exists_plain get_subject_id_plain subjects_named_def subjects_joined_def
  check_dataset_name_exists_plain get_dataset_id_plain datasets_named_def
  check_variable_name_exists_plain get_variable_id_plain variables_named_def
  validate_value_def validate_data_type_def formatted_name_def new_measurement_rows_def
  next_id_def reference_lib_def reference_re_match_def regex_characters_def digits_def
  plain_text_def plain_characters_def plain_option_def no_cells_def
  Let_def known_subject_row_def heart_rate_meas_row_def study_db_def

lemma reference_dates:
  "reference_to_datetime ''1980-05-16'' = Inr 19800516"
  "reference_to_datetime ''1980-05-17'' = Inr 19800517"
  "reference_to_datetime ''1990-03-04'' = Inr 19900304"
  "reference_to_datetime ''1990-03-05'' = Inr 19900305"
  "match_date ''1980-05-16''" "match_date ''1980-05-17''"
  "match_date ''1990-03-04''" "match_date ''1990-03-05''"
  by (simp_all add: reference_to_datetime_def match_date_def date_pattern_def digits_def
      at_dollar_def days_in_month_def)

lemmas lifetime_unfold =
  lifetime_row_def at_birth_row_def at_death_row_def before_birth_row_def after_death_row_def
  check_measurement_date_def to_datetime_na_def timestamp_less_def reference_dates









lemma early_run:
  "insert_measurements reference_lib subject_columns early_batch study_db [] =
     Some (Inl (MeasurementFileException MeasurementDateEarlierThanDOB),
           \<lparr>df = [before_birth_row], formatted = True,
             added_columns = Some [\<lparr>a_subject_id = Some 1, a_variable_id = Some 1,
                                     a_value_deid = Some ''72'', a_meas_exists = False\<rparr>]\<rparr>,
           study_db)"
  by (simp add: run_unfold lifetime_unfold early_batch_def)

lemma late_run:
  "insert_measurements reference_lib subject_columns late_batch study_db [] =
     Some (Inl (MeasurementFileException MeasurementDateLaterThanDOD),
           \<lparr>df = [at_birth_row, after_death_row], formatted = True,
             added_columns = Some [\<lparr>a_subject_id = Some 1, a_variable_id = Some 1,
                                     a_value_deid = Some ''72'', a_meas_exists = False\<rparr>,
                                   \<lparr>a_subject_id = Some 1, a_variable_id = Some 1,
                                     a_value_deid = Some ''72'', a_meas_exists = False\<rparr>]\<rparr>,
           study_db)"
  by (simp add: run_unfold lifetime_unfold late_batch_def)


subsection \<open>The rows the loop returns\<close>

lemma left_join_member:
  assumes "(x, y) \<in> set (left_join xs ys cond)"
  shows "x \<in> set xs"
    and "\<And>y'. y = Some y' \<Longrightarrow> y' \<in> set ys \<and> cond x y'"
  using assms
  by (auto simp: left_join_def Let_def split: if_splits)

lemma drop_duplicates_set [simp]: "set (drop_duplicates xs) = set xs"
  by (simp add: drop_duplicates_def)

lemma drop_duplicates_distinct [simp]: "distinct (drop_duplicates xs)"
  by (simp add: drop_duplicates_def)

lemma select_variables_db_member:
  assumes "(v, vo) \<in> set (select_variables_db id_list engine)"
  shows "v \<in> set (metadata_variables engine)"
  using assms left_join_member(1)
  by (fastforce simp: select_variables_db_def)

lemma resolve_variable_ids_unique:
  assumes "resolve_variable_ids names engine = Inr variable_ids" and "name \<in> set names"
    and "plain_text name"
  shows "length (filter (\<lambda>v. v_variable_name v = name) (metadata_variables engine)) = 1"
proof -
  from assms(1) have "list_all2 (\<lambda>n i.
      (case check_variable_name_exists n engine of
         Inl e \<Rightarrow> Inl e
       | Inr found \<Rightarrow>
           if found = False then Inl (MeasurementFileException VariableNameDoesNotExist)
           else get_variable_id n engine) = Inr i) names variable_ids"
    by (simp add: resolve_variable_ids_def for_each_Inr_iff)
  with assms(2) obtain i where
    "(case check_variable_name_exists name engine of
         Inl e \<Rightarrow> Inl e
       | Inr found \<Rightarrow>
           if found = False then Inl (MeasurementFileException VariableNameDoesNotExist)
           else get_variable_id name engine) = Inr i"
    by (auto simp: list_all2_conv_all_nth in_set_conv_nth)
  then show ?thesis
    using assms(3)
    by (auto simp: check_variable_name_exists_plain variables_named_def Let_def
             split: sum.splits if_splits)
qed

lemma validate_value_returns:
  "validate_value lib variable_details variable val = Inr value_deid \<Longrightarrow>
     value_deid = (if v_deidentification_required variable then None else Some val)"
  by (auto simp: validate_value_def split: sum.splits if_splits)

lemma process_row_returns:
  assumes "process_row lib engine dataset_name uniq_subs variables_db row = Inr c"
  shows "\<exists>variable vo details sub rest.
           filter (\<lambda>(v, vo). v_variable_name v = formatted_name (b_dataset_name row) (b_variable_name row))
             variables_db = (variable, vo) # details \<and>
           filter (\<lambda>(sub, subject_id). si_subject_identifier sub = b_subject_identifier row)
             uniq_subs = (sub, c_subject_id c) # rest \<and>
           c_row c = row \<and>
           c_variable_id c = v_id variable \<and>
           c_value_deid c =
             (case b_value row of
                None \<Rightarrow> None
              | Some val \<Rightarrow> if v_deidentification_required variable then None else Some val) \<and>
           c_visit_grouping c =
             (if b_visit_grouping row = None \<and> v_associated_visit variable \<noteq> None
              then v_associated_visit variable else b_visit_grouping row) \<and>
           check_measurement_exists lib dataset_name (b_subject_identifier row)
             (formatted_name (b_dataset_name row) (b_variable_name row)) engine
             (b_measurement_date row) (b_measurement_time row) (c_visit_grouping c) =
               Inr (c_meas_exists c)"
proof -
  let ?name = "formatted_name (b_dataset_name row) (b_variable_name row)"
  let ?details = "filter (\<lambda>(v, vo). v_variable_name v = ?name) variables_db"
  let ?subs = "filter (\<lambda>(sub, subject_id). si_subject_identifier sub = b_subject_identifier row)
                 uniq_subs"
  from assms obtain variable vo details where d: "?details = (variable, vo) # details"
    by (auto simp: process_row_outcome Let_def split: list.splits)
  from assms d obtain sub subject_id rest where u: "?subs = (sub, subject_id) # rest"
    by (auto simp: process_row_outcome Let_def split: list.splits)
  let ?visit = "if b_visit_grouping row = None \<and> v_associated_visit variable \<noteq> None
                then v_associated_visit variable else b_visit_grouping row"
  from assms d u obtain value_deid found where
    v: "(case b_value row of
           None \<Rightarrow> Inr None
         | Some val \<Rightarrow> validate_value lib ?details variable val) = Inr value_deid"
    and f: "check_measurement_exists lib dataset_name (b_subject_identifier row) ?name engine
              (b_measurement_date row) (b_measurement_time row) ?visit = Inr found"
    and c: "c = \<lparr>c_row = row, c_subject_id = subject_id, c_variable_id = v_id variable,
                   c_value_deid = value_deid, c_visit_grouping = ?visit,
                   c_meas_exists = (found = True)\<rparr>"
    by (auto simp: process_row_outcome Let_def split: sum.splits)
  from v have "value_deid =
      (case b_value row of
         None \<Rightarrow> None
       | Some val \<Rightarrow> if v_deidentification_required variable then None else Some val)"
    by (auto split: option.splits dest: validate_value_returns)
  with d u f c show ?thesis by simp
qed

lemma check_rows_returns:
  assumes "check_rows lib dataset_name uniq_subs rows engine = Inr checked"
  shows "\<exists>subject_ids variable_ids.
           resolve_subject_ids uniq_subs engine = Inr subject_ids \<and>
           resolve_variable_ids
             (map (\<lambda>(d, v). formatted_name d v)
                (drop_duplicates (map (\<lambda>r. (b_dataset_name r, b_variable_name r)) rows)))
             engine = Inr variable_ids \<and>
           list_all2 (\<lambda>row c.
               process_row lib engine dataset_name (zip (map fst uniq_subs) subject_ids)
                 (select_variables_db variable_ids engine) row = Inr c) rows checked"
  using assms
  by (auto simp: check_rows_outcome Let_def for_each_Inr_iff split: sum.splits)

lemma new_measurement_rows_member:
  assumes "m \<in> set (new_measurement_rows first_id rows)"
  shows "\<exists>c \<in> set rows.
           m_subject_id m = c_subject_id c \<and> m_variable_id m = c_variable_id c \<and>
           m_measurement_date m = b_measurement_date (c_row c) \<and>
           m_measurement_time m = b_measurement_time (c_row c) \<and>
           m_visit_grouping m = c_visit_grouping c \<and>
           m_value m = b_value (c_row c) \<and> m_value_deid m = c_value_deid c"
  using assms
  by (auto simp: new_measurement_rows_def in_set_enumerate_eq)

lemma insert_measurements_added:
  assumes "insert_measurements lib subject_template formatted_meas engine rng =
             Some (Inr counts, remaining, engine')"
  shows "\<exists>dataset_name uniq_subs engine1 checked.
           insert_new_subjects lib subject_template (df formatted_meas) engine rng =
             Some (Inr (dataset_name, uniq_subs), engine1) \<and>
           check_rows lib dataset_name uniq_subs (df formatted_meas) engine1 = Inr checked \<and>
           measurements engine' = measurements engine @
             new_measurement_rows (next_id (map m_id (measurements engine)))
               (filter (\<lambda>c. c_meas_exists c = False) checked)"
proof -
  from insert_measurements_returns [OF assms] obtain dataset_name uniq_subs engine1 checked
    where first: "insert_new_subjects lib subject_template (df formatted_meas) engine rng =
             Some (Inr (dataset_name, uniq_subs), engine1)"
      and rows: "check_rows lib dataset_name uniq_subs (df formatted_meas) engine1 = Inr checked"
      and out: "engine' = (if length (filter (\<lambda>c. c_meas_exists c = False) checked) > 0
                      then engine1\<lparr>measurements := measurements engine1 @
                             new_measurement_rows (next_id (map m_id (measurements engine1)))
                               (filter (\<lambda>c. c_meas_exists c = False) checked)\<rparr>
                      else engine1)"
    by blast
  have same: "measurements engine1 = measurements engine"
    by (rule insert_new_subjects_keeps_tables(4) [OF first])
  have "measurements engine' = measurements engine @
             new_measurement_rows (next_id (map m_id (measurements engine)))
               (filter (\<lambda>c. c_meas_exists c = False) checked)"
    using out same by (auto simp: new_measurement_rows_def)
  with first rows show ?thesis by blast
qed

lemma list_all2_right_member:
  assumes "list_all2 P xs ys" and "y \<in> set ys"
  shows "\<exists>x \<in> set xs. P x y"
  using assms by (induction rule: list_all2_induct) auto

lemma singleton_filter:
  assumes "length (filter P xs) = 1" and "x \<in> set xs" and "P x"
  shows "filter P xs = [x]"
proof -
  from assms(1) obtain y where y: "filter P xs = [y]"
    by (cases "filter P xs") auto
  from assms(2,3) have "x \<in> set (filter P xs)" by simp
  with y show ?thesis by simp
qed

lemma checked_row_variable:
  assumes rows: "check_rows lib dataset_name uniq_subs rows engine = Inr checked"
    and c: "c \<in> set checked"
  shows "\<exists>row \<in> set rows. \<exists>variable.
           variable \<in> set (metadata_variables engine) \<and>
           v_variable_name variable =
             formatted_name (b_dataset_name row) (b_variable_name row) \<and>
           (plain_text (formatted_name (b_dataset_name row) (b_variable_name row)) \<longrightarrow>
              filter (\<lambda>v. v_variable_name v =
                        formatted_name (b_dataset_name row) (b_variable_name row))
                (metadata_variables engine) = [variable]) \<and>
           c_row c = row \<and> c_variable_id c = v_id variable \<and>
           c_value_deid c =
             (case b_value row of
                None \<Rightarrow> None
              | Some val \<Rightarrow> if v_deidentification_required variable then None else Some val)"
proof -
  let ?names = "map (\<lambda>(d, v). formatted_name d v)
                  (drop_duplicates (map (\<lambda>r. (b_dataset_name r, b_variable_name r)) rows))"
  from check_rows_returns [OF rows] obtain subject_ids variable_ids where
    vars: "resolve_variable_ids ?names engine = Inr variable_ids"
    and all: "list_all2 (\<lambda>row c.
               process_row lib engine dataset_name (zip (map fst uniq_subs) subject_ids)
                 (select_variables_db variable_ids engine) row = Inr c) rows checked"
    by blast
  from list_all2_right_member [OF all c] obtain row where
    row: "row \<in> set rows"
    and run: "process_row lib engine dataset_name (zip (map fst uniq_subs) subject_ids)
                 (select_variables_db variable_ids engine) row = Inr c"
    by blast
  let ?name = "formatted_name (b_dataset_name row) (b_variable_name row)"
  from process_row_returns [OF run] obtain variable vo details where
    d: "filter (\<lambda>(v, vo). v_variable_name v = ?name) (select_variables_db variable_ids engine) =
          (variable, vo) # details"
    and fields: "c_row c = row" "c_variable_id c = v_id variable"
      "c_value_deid c =
         (case b_value row of
            None \<Rightarrow> None
          | Some val \<Rightarrow> if v_deidentification_required variable then None else Some val)"
    by blast
  have "(variable, vo) \<in> set (filter (\<lambda>(v, vo). v_variable_name v = ?name)
                                  (select_variables_db variable_ids engine))"
    using d by simp
  then have mem: "(variable, vo) \<in> set (select_variables_db variable_ids engine)"
    and name: "v_variable_name variable = ?name"
    by simp_all
  from select_variables_db_member [OF mem]
  have var: "variable \<in> set (metadata_variables engine)" .
  have listed: "?name \<in> set ?names" using row by force
  have "filter (\<lambda>v. v_variable_name v = ?name) (metadata_variables engine) = [variable]"
    if "plain_text ?name"
    using resolve_variable_ids_unique [OF vars listed that] var name
    by (rule singleton_filter)
  with row fields var name show ?thesis by blast
qed

text \<open>
  C7. When \<open>insert_measurements\<close> returns, the measurements table is the old one
  followed by the new rows, and each new row comes from a row of the frame and a row
  of metadata_variables that carries the formatted name of its variable and whose id
  the new row stores (when the formatted name is plain, it is the one row of
  metadata_variables with that name). This variable decides the stored \<open>value_deid\<close>:
  when the value is not missing, it is missing if the variable requires
  de-identification and the value itself otherwise; the value is stored as it is.
\<close>

theorem value_deid_follows_policy:
  assumes "insert_measurements lib subject_template formatted_meas engine rng =
             Some (Inr counts, remaining, engine')"
  shows "\<exists>added. measurements engine' = measurements engine @ added \<and>
           (\<forall>m \<in> set added. \<exists>row \<in> set (df formatted_meas). \<exists>variable.
               variable \<in> set (metadata_variables engine) \<and>
               v_variable_name variable =
                 formatted_name (b_dataset_name row) (b_variable_name row) \<and>
               (plain_text (formatted_name (b_dataset_name row) (b_variable_name row)) \<longrightarrow>
                  filter (\<lambda>v. v_variable_name v =
                            formatted_name (b_dataset_name row) (b_variable_name row))
                    (metadata_variables engine) = [variable]) \<and>
               m_variable_id m = v_id variable \<and>
               m_value m = b_value row \<and>
               m_value_deid m =
                 (case b_value row of
                    None \<Rightarrow> None
                  | Some val \<Rightarrow>
                      if v_deidentification_required variable then None else Some val))"
proof -
  from insert_measurements_added [OF assms] obtain dataset_name uniq_subs engine1 checked where
    first: "insert_new_subjects lib subject_template (df formatted_meas) engine rng =
             Some (Inr (dataset_name, uniq_subs), engine1)"
    and rows: "check_rows lib dataset_name uniq_subs (df formatted_meas) engine1 = Inr checked"
    and out: "measurements engine' = measurements engine @
             new_measurement_rows (next_id (map m_id (measurements engine)))
               (filter (\<lambda>c. c_meas_exists c = False) checked)"
    by blast
  let ?added = "new_measurement_rows (next_id (map m_id (measurements engine)))
               (filter (\<lambda>c. c_meas_exists c = False) checked)"
  have vars: "metadata_variables engine1 = metadata_variables engine"
    by (rule insert_new_subjects_keeps_tables(2) [OF first])
  have "\<exists>row \<in> set (df formatted_meas). \<exists>variable.
               variable \<in> set (metadata_variables engine) \<and>
               v_variable_name variable =
                 formatted_name (b_dataset_name row) (b_variable_name row) \<and>
               (plain_text (formatted_name (b_dataset_name row) (b_variable_name row)) \<longrightarrow>
                  filter (\<lambda>v. v_variable_name v =
                            formatted_name (b_dataset_name row) (b_variable_name row))
                    (metadata_variables engine) = [variable]) \<and>
               m_variable_id m = v_id variable \<and>
               m_value m = b_value row \<and>
               m_value_deid m =
                 (case b_value row of
                    None \<Rightarrow> None
                  | Some val \<Rightarrow>
                      if v_deidentification_required variable then None else Some val)"
    if "m \<in> set ?added" for m
  proof -
    from new_measurement_rows_member [OF that] obtain c where
      c: "c \<in> set checked"
      and m: "m_variable_id m = c_variable_id c" "m_value m = b_value (c_row c)"
        "m_value_deid m = c_value_deid c"
      by auto
    from checked_row_variable [OF rows c] obtain row variable where
      "row \<in> set (df formatted_meas)"
      "variable \<in> set (metadata_variables engine1)"
      "v_variable_name variable = formatted_name (b_dataset_name row) (b_variable_name row)"
      "plain_text (formatted_name (b_dataset_name row) (b_variable_name row)) \<longrightarrow>
         filter (\<lambda>v. v_variable_name v =
                   formatted_name (b_dataset_name row) (b_variable_name row))
           (metadata_variables engine1) = [variable]"
      "c_row c = row" "c_variable_id c = v_id variable"
      "c_value_deid c =
         (case b_value row of
            None \<Rightarrow> None
          | Some val \<Rightarrow> if v_deidentification_required variable then None else Some val)"
      by blast
    with vars m show ?thesis
      by (intro bexI [of _ row] exI [of _ variable]) simp_all
  qed
  with out show ?thesis by blast
qed

subsection \<open>Example runs of insert_measurements\<close>

lemma two_variable_first_run:
  "insert_measurements reference_lib subject_columns two_variable_batch study_db [] =
     Some (Inr \<lparr>new_subs = 0, old_subs = 1, new_meas = 2, old_meas = 0\<rparr>,
           \<lparr>df = [known_subject_row, postcode_row\<lparr>b_visit_grouping := Some ''baseline''\<rparr>],
             formatted = True,
             added_columns = Some [\<lparr>a_subject_id = Some 1, a_variable_id = Some 1,
                                     a_value_deid = Some ''72'', a_meas_exists = False\<rparr>,
                                   \<lparr>a_subject_id = Some 1, a_variable_id = Some 2,
                                     a_value_deid = None, a_meas_exists = False\<rparr>]\<rparr>,
           study_db_measured)"
  by (simp add: run_unfold two_variable_batch_def postcode_row_def study_db_measured_def)

theorem value_deid_follows_policy_witness:
  "insert_measurements reference_lib subject_columns two_variable_batch study_db [] =
     Some (Inr \<lparr>new_subs = 0, old_subs = 1, new_meas = 2, old_meas = 0\<rparr>,
           \<lparr>df = [known_subject_row, postcode_row\<lparr>b_visit_grouping := Some ''baseline''\<rparr>],
             formatted = True,
             added_columns = Some [\<lparr>a_subject_id = Some 1, a_variable_id = Some 1,
                                     a_value_deid = Some ''72'', a_meas_exists = False\<rparr>,
                                   \<lparr>a_subject_id = Some 1, a_variable_id = Some 2,
                                     a_value_deid = None, a_meas_exists = False\<rparr>]\<rparr>,
           study_db_measured) \<and>
   (\<exists>added. measurements study_db_measured = measurements study_db @ added \<and>
      (\<forall>m \<in> set added. \<exists>row \<in> set (df two_variable_batch). \<exists>variable.
          variable \<in> set (metadata_variables study_db) \<and>
          v_variable_name variable =
            formatted_name (b_dataset_name row) (b_variable_name row) \<and>
          (plain_text (formatted_name (b_dataset_name row) (b_variable_name row)) \<longrightarrow>
             filter (\<lambda>v. v_variable_name v =
                       formatted_name (b_dataset_name row) (b_variable_name row))
               (metadata_variables study_db) = [variable]) \<and>
          m_variable_id m = v_id variable \<and>
          m_value m = b_value row \<and>
          m_value_deid m =
            (case b_value row of
               None \<Rightarrow> None
             | Some val \<Rightarrow>
                 if v_deidentification_required variable then None else Some val))) \<and>
   plain_text (formatted_name ''STUDY1'' ''hr'') \<and>
   plain_text (formatted_name ''STUDY1'' ''postcode'') \<and>
   map m_value (measurements study_db_measured) = [Some ''72'', Some ''AB1 2CD''] \<and>
   map m_value_deid (measurements study_db_measured) = [Some ''72'', None]"
proof -
  have stored: "map m_value (measurements study_db_measured) = [Some ''72'', Some ''AB1 2CD'']"
    "map m_value_deid (measurements study_db_measured) = [Some ''72'', None]"
    by (simp_all add: study_db_measured_def)
  have plain: "plain_text (formatted_name ''STUDY1'' ''hr'')"
    "plain_text (formatted_name ''STUDY1'' ''postcode'')"
    by (simp_all add: formatted_name_def plain_text_def plain_characters_def)
  show ?thesis
    using two_variable_first_run stored plain
      value_deid_follows_policy [OF two_variable_first_run]
    by simp
qed

end
